theory Spec2Isabelle
  imports Complex_Main "HOL-Library.Log_Nat"
begin

section \<open>JavaScript values used by the code\<close>

text \<open>
  Strings are byte strings (UTF-8). A value that may be \<^verbatim>\<open>undefined\<close> is an
  \<open>option\<close>. \<open>truthy\<close> is JavaScript's truthiness of a possibly undefined string:
  \<^verbatim>\<open>undefined\<close> and the empty string are falsy. \<open>js_string\<close> is what a template
  literal prints for such a value.
\<close>

definition truthy :: "string option \<Rightarrow> bool" where
  "truthy v = (case v of None \<Rightarrow> False | Some s \<Rightarrow> s \<noteq> [])"

definition js_string :: "string option \<Rightarrow> string" where
  "js_string v = (case v of None \<Rightarrow> ''undefined'' | Some s \<Rightarrow> s)"

definition or_else :: "string option \<Rightarrow> string \<Rightarrow> string" where
  \<comment> \<open>\<^verbatim>\<open>v || d\<close> on strings\<close>
  "or_else v d = (case v of None \<Rightarrow> d | Some s \<Rightarrow> if s = [] then d else s)"

fun strip_prefix :: "string \<Rightarrow> string \<Rightarrow> string option" where
  "strip_prefix [] s = Some s"
| "strip_prefix (p # ps) [] = None"
| "strip_prefix (p # ps) (c # cs) = (if p = c then strip_prefix ps cs else None)"

text \<open>
  \<^verbatim>\<open>String.prototype.trim\<close> removes the white space and the line terminators of
  ECMAScript from both ends. \<open>white_space\<close> lists them in UTF-8: U+0009 to U+000D,
  U+0020, U+00A0, U+1680, U+2000 to U+200A, U+2028, U+2029, U+202F, U+205F, U+3000 and
  U+FEFF. \<open>trim_start\<close> removes leading sequences of a list as long as there is one
  (every sequence of \<open>white_space\<close> has a byte, so the rest is shorter); the end of a
  string is trimmed on its reverse.
\<close>

definition white_space :: "string list" where
  "white_space =
     [[CHR 0x09], [CHR 0x0A], [CHR 0x0B], [CHR 0x0C], [CHR 0x0D], [CHR 0x20],
      [CHR 0xC2, CHR 0xA0], [CHR 0xE1, CHR 0x9A, CHR 0x80],
      [CHR 0xE2, CHR 0x80, CHR 0x80], [CHR 0xE2, CHR 0x80, CHR 0x81],
      [CHR 0xE2, CHR 0x80, CHR 0x82], [CHR 0xE2, CHR 0x80, CHR 0x83],
      [CHR 0xE2, CHR 0x80, CHR 0x84], [CHR 0xE2, CHR 0x80, CHR 0x85],
      [CHR 0xE2, CHR 0x80, CHR 0x86], [CHR 0xE2, CHR 0x80, CHR 0x87],
      [CHR 0xE2, CHR 0x80, CHR 0x88], [CHR 0xE2, CHR 0x80, CHR 0x89],
      [CHR 0xE2, CHR 0x80, CHR 0x8A], [CHR 0xE2, CHR 0x80, CHR 0xA8],
      [CHR 0xE2, CHR 0x80, CHR 0xA9], [CHR 0xE2, CHR 0x80, CHR 0xAF],
      [CHR 0xE2, CHR 0x81, CHR 0x9F], [CHR 0xE3, CHR 0x80, CHR 0x80],
      [CHR 0xEF, CHR 0xBB, CHR 0xBF]]"

fun strip_one :: "string list \<Rightarrow> string \<Rightarrow> string option" where
  \<comment> \<open>the string without the first sequence of the list that it starts with\<close>
  "strip_one [] s = None"
| "strip_one (w # ws) s =
     (case strip_prefix w s of Some r \<Rightarrow> Some r | None \<Rightarrow> strip_one ws s)"

function trim_start :: "string list \<Rightarrow> string \<Rightarrow> string" where
  "trim_start ws s =
     (case strip_one ws s of
        None \<Rightarrow> s
      | Some r \<Rightarrow> if length r < length s then trim_start ws r else s)"
  by pat_completeness auto

termination
  by (relation "measure (\<lambda>(ws, s). length s)") auto

definition js_trim :: "string \<Rightarrow> string" where
  "js_trim s = rev (trim_start (map rev white_space) (rev (trim_start white_space s)))"

definition is_lower :: "char \<Rightarrow> bool" where
  "is_lower c = (97 \<le> (of_char c :: nat) \<and> (of_char c :: nat) \<le> 122)"

definition undefined_read :: "string \<Rightarrow> string" where
  \<comment> \<open>the message of the TypeError thrown when a property of \<^verbatim>\<open>undefined\<close> is read\<close>
  "undefined_read prop =
     ''Cannot read properties of undefined (reading '' @ [CHR 0x27] @ prop @ [CHR 0x27] @ '')''"

subsection \<open>Numbers\<close>

text \<open>
  A JavaScript number is an IEEE 754 double (binary64): a significand of 53 bits and a
  power of two. The result of every arithmetic operation is the exact result rounded to
  the nearest double, a tie going to the even significand. \<open>binary64\<close> is that rounding,
  on rationals: \<open>binary_exponent x\<close> is the exponent \<open>e\<close> with \<open>2 powi e \<le> x < 2 powi (e + 1)\<close>,
  and \<open>x\<close> is rounded to a multiple of \<open>2 powi (e - 52)\<close>. The range of the exponent is
  not bounded (no overflow, no subnormal numbers): the image dimensions and their
  quotients are far from both ends.
\<close>

definition round_half_even :: "rat \<Rightarrow> int" where
  "round_half_even m =
     (let f = \<lfloor>m\<rfloor>; r = m - of_int f
      in if r < 1 / 2 then f
         else if 1 / 2 < r then f + 1
         else if even f then f else f + 1)"

definition binary_exponent :: "rat \<Rightarrow> int" where
  \<comment> \<open>for \<open>0 < x\<close>, from the bit lengths of numerator and denominator\<close>
  "binary_exponent x =
     (let (p, q) = quotient_of x; k = bitlen p - bitlen q
      in if 2 powi k \<le> x then k else k - 1)"

definition binary64 :: "rat \<Rightarrow> rat" where
  "binary64 x =
     (if x = 0 then 0
      else (let e = binary_exponent \<bar>x\<bar> - 52
            in of_int (round_half_even (x / 2 powi e)) * 2 powi e))"

section \<open>The relay: api/generate.js\<close>

subsection \<open>The response of the generative model\<close>

record inline_data =
  mimeType :: "string option"
  data :: "string option"

record part =
  inlineData :: "inline_data option"
  part_text :: "string option"

record gen_content =
  parts :: "part list option"

record candidate =
  content :: "gen_content option"
  finishReason :: "string option"

record prompt_feedback =
  blockReason :: "string option"
  blockReasonMessage :: "string option"

record gen_response =
  promptFeedback :: "prompt_feedback option"
  candidates :: "candidate list option"
  response_text :: "string option"

definition first_candidate :: "gen_response \<Rightarrow> candidate option" where
  \<comment> \<open>\<^verbatim>\<open>response.candidates?.[0]\<close>\<close>
  "first_candidate response =
     (case candidates response of None \<Rightarrow> None
      | Some cs \<Rightarrow> (case cs of [] \<Rightarrow> None | c # _ \<Rightarrow> Some c))"

definition imagePartFromResponse :: "gen_response \<Rightarrow> part option" where
  \<comment> \<open>\<^verbatim>\<open>response.candidates?.[0]?.content?.parts?.find(part => part.inlineData)\<close>\<close>
  "imagePartFromResponse response =
     (case first_candidate response of None \<Rightarrow> None
      | Some c \<Rightarrow> (case content c of None \<Rightarrow> None
         | Some ct \<Rightarrow> (case parts ct of None \<Rightarrow> None
            | Some ps \<Rightarrow> find (\<lambda>p. inlineData p \<noteq> None) ps)))"

definition block_reason :: "gen_response \<Rightarrow> string option" where
  \<comment> \<open>\<^verbatim>\<open>response.promptFeedback?.blockReason\<close>\<close>
  "block_reason response =
     (case promptFeedback response of None \<Rightarrow> None | Some pf \<Rightarrow> blockReason pf)"

definition block_message :: "gen_response \<Rightarrow> string option" where
  "block_message response =
     (case promptFeedback response of None \<Rightarrow> None | Some pf \<Rightarrow> blockReasonMessage pf)"

definition finish_reason :: "gen_response \<Rightarrow> string option" where
  \<comment> \<open>\<^verbatim>\<open>response.candidates?.[0]?.finishReason\<close>\<close>
  "finish_reason response =
     (case first_candidate response of None \<Rightarrow> None | Some c \<Rightarrow> finishReason c)"

definition blocked_message :: "gen_response \<Rightarrow> string" where
  "blocked_message response =
     ''Request was blocked. Reason: '' @ js_string (block_reason response) @ ''. ''
       @ or_else (block_message response) []"

definition data_url :: "inline_data \<Rightarrow> string" where
  "data_url d = ''data:'' @ js_string (mimeType d) @ '';base64,'' @ js_string (data d)"

definition text_feedback :: "gen_response \<Rightarrow> string option" where
  \<comment> \<open>\<^verbatim>\<open>response.text?.trim()\<close>\<close>
  "text_feedback response = map_option js_trim (response_text response)"

text \<open>
  \<open>handleApiResponse\<close> of api/generate.js. A thrown \<^verbatim>\<open>Error\<close> is \<open>Inl\<close> of its
  message, a returned data URL is \<open>Inr\<close>.
\<close>

definition image_data :: "gen_response \<Rightarrow> inline_data option" where
  \<comment> \<open>\<^verbatim>\<open>imagePartFromResponse?.inlineData\<close>\<close>
  "image_data response =
     (case imagePartFromResponse response of None \<Rightarrow> None | Some p \<Rightarrow> inlineData p)"

definition has_inline_image :: "gen_response \<Rightarrow> bool" where
  \<comment> \<open>the first candidate of the response has a part with inline data: what
     \<open>handleApiResponse\<close> looks for\<close>
  "has_inline_image response =
     (case candidates response of
        None \<Rightarrow> False
      | Some cs \<Rightarrow>
         (case cs of
            [] \<Rightarrow> False
          | c # _ \<Rightarrow>
             (case content c of
                None \<Rightarrow> False
              | Some ct \<Rightarrow>
                 (case parts ct of
                    None \<Rightarrow> False
                  | Some ps \<Rightarrow> list_ex (\<lambda>p. inlineData p \<noteq> None) ps))))"

definition contains_inline_image :: "gen_response \<Rightarrow> bool" where
  \<comment> \<open>the response contains an inline-image part: some candidate, not only the
     first, has a part with inline data\<close>
  "contains_inline_image response =
     (case candidates response of
        None \<Rightarrow> False
      | Some cs \<Rightarrow>
          list_ex (\<lambda>c. case content c of
                          None \<Rightarrow> False
                        | Some ct \<Rightarrow>
                           (case parts ct of
                              None \<Rightarrow> False
                            | Some ps \<Rightarrow> list_ex (\<lambda>p. inlineData p \<noteq> None) ps)) cs)"

definition handleApiResponse :: "gen_response \<Rightarrow> string \<Rightarrow> string + string" where
  "handleApiResponse response ctx =
     (if truthy (block_reason response) then Inl (blocked_message response)
      else case image_data response of
        Some d \<Rightarrow> Inr (data_url d)
      | None \<Rightarrow>
         (if truthy (finish_reason response) \<and> finish_reason response \<noteq> Some ''STOP''
          then Inl (''Image generation for '' @ ctx @ '' stopped unexpectedly. Reason: ''
                 @ js_string (finish_reason response))
          else Inl (''The AI model did not return an image for the '' @ ctx @ ''. ''
                 @ (if truthy (text_feedback response)
                    then ''The model responded with text: '' @ [CHR 0x22]
                       @ js_string (text_feedback response) @ [CHR 0x22]
                    else ''This can happen due to safety filters or if the request is too complex.''))))"

text \<open>
  The older services/geminiService.ts, which called the model from the browser, has the
  same function with longer messages.
\<close>

definition handleApiResponse_service :: "gen_response \<Rightarrow> string \<Rightarrow> string + string" where
  "handleApiResponse_service response ctx =
     (if truthy (block_reason response) then Inl (blocked_message response)
      else case image_data response of
        Some d \<Rightarrow> Inr (data_url d)
      | None \<Rightarrow>
         (if truthy (finish_reason response) \<and> finish_reason response \<noteq> Some ''STOP''
          then Inl (''Image generation for '' @ ctx @ '' stopped unexpectedly. Reason: ''
                 @ js_string (finish_reason response)
                 @ ''. This often relates to safety settings.'')
          else Inl (''The AI model did not return an image for the '' @ ctx @ ''. ''
                 @ (if truthy (text_feedback response)
                    then ''The model responded with text: '' @ [CHR 0x22]
                       @ js_string (text_feedback response) @ [CHR 0x22]
                    else ''This can happen due to safety filters or if the request is too complex. Please try rephrasing your prompt to be more direct.''))))"

subsection \<open>The request handler\<close>

text \<open>
  The body of a request to /api/generate: the fields the handler destructures
  (\<open>type\<close> is \<open>op_type\<close> here), and the fields only the client writes
  (\<open>images\<close>, \<open>targetDimensions\<close>, \<open>direction\<close>). Numbers are rationals. A
  \<open>request\<close> is a request whose JSON body has been parsed; \<open>http_request\<close> below is
  the request as the platform delivers it, whose body may be undefined.
\<close>

record req_body =
  op_type :: "string option"
  originalImage :: "string option"
  userPrompt :: "string option"
  hotspot :: "(rat \<times> rat) option"
  filterPrompt :: "string option"
  adjustmentPrompt :: "string option"
  objectImage :: "string option"
  images :: "string list option"
  targetDimensions :: "(nat \<times> nat) option"
  direction :: "string option"

record request =
  req_method :: string
  body :: req_body

datatype json_body =
    NoBody
  | ErrorBody string
  | ErrorDetailsBody string string
  | SuccessBody string

record http_response =
  status :: nat
  headers :: "(string \<times> string) list"
  payload :: json_body

text \<open>
  The instruction sent to the model is a fixed template with the request's values in
  its holes; an instruction is the template's name and those values.
\<close>

datatype instruction =
    EditPrompt "string option"
  | FilterPrompt "string option"
  | AdjustmentPrompt "string option"
  | PlacementPrompt "string option" rat rat

datatype req_part =
    InlinePart string string
  | TextPart instruction

record gen_call =
  model :: string
  contents :: "req_part list"
  responseModalities :: "string list"

text \<open>
  The external service \<^verbatim>\<open>ai.models.generateContent\<close> of a client built with an API
  key: it answers a call with a response or rejects with an error message. It is a
  parameter of the handler. An \<open>api_call\<close> records one call made: the key and the call.
\<close>

type_synonym genai = "string \<Rightarrow> gen_call \<Rightarrow> string + gen_response"

type_synonym api_call = "string \<times> gen_call"

definition strip_data_prefix :: "string \<Rightarrow> string" where
  \<comment> \<open>\<^verbatim>\<open>s.replace(/^data:image\/[a-z]+;base64,/, '')\<close>\<close>
  "strip_data_prefix s =
     (case strip_prefix ''data:image/'' s of
        None \<Rightarrow> s
      | Some r \<Rightarrow>
          (if takeWhile is_lower r = [] then s
           else case strip_prefix '';base64,'' (dropWhile is_lower r) of
                  None \<Rightarrow> s
                | Some t \<Rightarrow> t))"

definition base64ToPart :: "string option \<Rightarrow> string \<Rightarrow> string + req_part" where
  "base64ToPart base64Data mime =
     (case base64Data of
        None \<Rightarrow> Inl (undefined_read ''replace'')
      | Some s \<Rightarrow> Inr (InlinePart mime (strip_data_prefix s)))"

definition image_model :: string where
  "image_model = ''gemini-2.5-flash-image-preview''"

definition generate :: "genai \<Rightarrow> string \<Rightarrow> req_part list \<Rightarrow> string
    \<Rightarrow> (string + string) \<times> api_call list" where
  \<comment> \<open>the call to the model and the reading of its answer, shared by the four requests\<close>
  "generate generateContent apiKey ps ctx =
     (let c = \<lparr>model = image_model, contents = ps, responseModalities = [''IMAGE'', ''TEXT'']\<rparr>
      in (case generateContent apiKey c of
            Inl e \<Rightarrow> Inl e
          | Inr response \<Rightarrow> handleApiResponse response ctx,
          [(apiKey, c)]))"

definition handleEditRequest :: "genai \<Rightarrow> string \<Rightarrow> req_body
    \<Rightarrow> (string + string) \<times> api_call list" where
  "handleEditRequest generateContent apiKey b =
     (case base64ToPart (originalImage b) ''image/png'' of
        Inl e \<Rightarrow> (Inl e, [])
      | Inr originalImagePart \<Rightarrow>
          generate generateContent apiKey
            [originalImagePart, TextPart (EditPrompt (userPrompt b))] ''edit'')"

definition handleFilterRequest :: "genai \<Rightarrow> string \<Rightarrow> req_body
    \<Rightarrow> (string + string) \<times> api_call list" where
  "handleFilterRequest generateContent apiKey b =
     (case base64ToPart (originalImage b) ''image/png'' of
        Inl e \<Rightarrow> (Inl e, [])
      | Inr originalImagePart \<Rightarrow>
          generate generateContent apiKey
            [originalImagePart, TextPart (FilterPrompt (filterPrompt b))] ''filter'')"

definition handleAdjustmentRequest :: "genai \<Rightarrow> string \<Rightarrow> req_body
    \<Rightarrow> (string + string) \<times> api_call list" where
  "handleAdjustmentRequest generateContent apiKey b =
     (case base64ToPart (originalImage b) ''image/png'' of
        Inl e \<Rightarrow> (Inl e, [])
      | Inr originalImagePart \<Rightarrow>
          generate generateContent apiKey
            [originalImagePart, TextPart (AdjustmentPrompt (adjustmentPrompt b))] ''adjustment'')"

definition handlePlacementRequest :: "genai \<Rightarrow> string \<Rightarrow> req_body
    \<Rightarrow> (string + string) \<times> api_call list" where
  "handlePlacementRequest generateContent apiKey b =
     (case base64ToPart (originalImage b) ''image/png'' of
        Inl e \<Rightarrow> (Inl e, [])
      | Inr sceneImagePart \<Rightarrow>
          (case base64ToPart (objectImage b) ''image/png'' of
             Inl e \<Rightarrow> (Inl e, [])
           | Inr objectImagePart \<Rightarrow>
               (case hotspot b of
                  None \<Rightarrow> (Inl (undefined_read ''x''), [])
                | Some (hx, hy) \<Rightarrow>
                    generate generateContent apiKey
                      [sceneImagePart, objectImagePart,
                       TextPart (PlacementPrompt (userPrompt b) hx hy)] ''placement'')))"

definition cors_headers :: "(string \<times> string) list" where
  "cors_headers =
     [(''Access-Control-Allow-Origin'', ''*''),
      (''Access-Control-Allow-Methods'', ''POST, OPTIONS''),
      (''Access-Control-Allow-Headers'', ''Content-Type'')]"

definition metodo_no_permitido :: string where
  "metodo_no_permitido = ''M'' @ [CHR 0xC3, CHR 0xA9] @ ''todo no permitido''"

definition tipo_no_valido :: string where
  "tipo_no_valido = ''Tipo de operaci'' @ [CHR 0xC3, CHR 0xB3] @ ''n no v''
     @ [CHR 0xC3, CHR 0xA1] @ ''lido''"

definition respond :: "nat \<Rightarrow> json_body \<Rightarrow> http_response" where
  \<comment> \<open>every response carries the headers set at the top of the handler\<close>
  "respond code b = \<lparr>status = code, headers = cors_headers, payload = b\<rparr>"

definition dispatch :: "genai \<Rightarrow> string \<Rightarrow> req_body
    \<Rightarrow> ((string + string) \<times> api_call list) option" where
  \<comment> \<open>the \<^verbatim>\<open>switch (type)\<close>; \<open>None\<close> is its default branch\<close>
  "dispatch generateContent apiKey b =
     (if op_type b = Some ''edit'' then Some (handleEditRequest generateContent apiKey b)
      else if op_type b = Some ''filter'' then Some (handleFilterRequest generateContent apiKey b)
      else if op_type b = Some ''adjustment''
        then Some (handleAdjustmentRequest generateContent apiKey b)
      else if op_type b = Some ''placement''
        then Some (handlePlacementRequest generateContent apiKey b)
      else None)"

text \<open>
  The handler, given the external service, the environment variables and a request
  with its body, returns the response and the calls it made to the external service.
\<close>

definition handler :: "genai \<Rightarrow> (string \<rightharpoonup> string) \<Rightarrow> request
    \<Rightarrow> http_response \<times> api_call list" where
  "handler generateContent env req =
     (if req_method req = ''OPTIONS'' then (respond 200 NoBody, [])
      else if req_method req \<noteq> ''POST'' then (respond 405 (ErrorBody metodo_no_permitido), [])
      else if \<not> truthy (env ''GEMINI_API_KEY'')
        then (respond 500 (ErrorBody ''API Key de Gemini no configurada''), [])
      else case dispatch generateContent (the (env ''GEMINI_API_KEY'')) (body req) of
             None \<Rightarrow> (respond 400 (ErrorBody tipo_no_valido), [])
           | Some (Inr d, calls) \<Rightarrow> (respond 200 (SuccessBody d), calls)
           | Some (Inl msg, calls) \<Rightarrow>
               (respond 500 (ErrorDetailsBody ''Error interno del servidor'' msg), calls))"





section \<open>The browser: images, files and the 2D canvas\<close>

text \<open>
  Coordinates are rationals, and the dimensions of an image and of a canvas are natural
  numbers. Sums, differences and halves of such dimensions are exact in doubles (below
  \<open>2 ^ 53\<close>), and so is the sum of such a half and a hotspot with integer coordinates
  (\<^verbatim>\<open>handleImageClick\<close> rounds them); the quotients and products of
  \<open>cropSquareToOriginal\<close> are not, so that
  function is given twice: in exact arithmetic, in which the specification writes its
  formula, and with every operation rounded by \<open>binary64\<close> as the code computes it
  (the definitions with suffix \<open>64\<close>, which the service functions call). The radius
  of the marker, a product by 0.015, is kept exact: it does not move the marker.

  An image is its natural size and its colour at every point of the plane; a colour is
  a CSS colour. A canvas is its size and the drawing operations applied to it, in order.
  \<open>render\<close> gives the paint applied last at a point (the top layer): how the browser
  blends it with the layers below, smooths and encodes is not modelled.
\<close>

type_synonym colour = string

record image =
  naturalWidth :: nat
  naturalHeight :: nat
  pixel :: "rat \<Rightarrow> rat \<Rightarrow> colour"

datatype draw_op =
    FillRect colour rat rat rat rat
  | DrawImage image rat rat rat rat rat rat rat rat
  | FillCircle colour rat rat rat
  | StrokeCircle colour rat rat rat rat

record canvas =
  width :: nat
  height :: nat
  ops :: "draw_op list"

definition transparent :: colour where
  "transparent = ''rgba(0, 0, 0, 0)''"

definition in_rect :: "rat \<Rightarrow> rat \<Rightarrow> rat \<Rightarrow> rat \<Rightarrow> rat \<Rightarrow> rat \<Rightarrow> bool" where
  "in_rect x y w h px py = (x \<le> px \<and> px < x + w \<and> y \<le> py \<and> py < y + h)"

text \<open>
  \<open>DrawImage img sx sy sw sh dx dy dw dh\<close> maps the source rectangle of the image onto
  the destination rectangle of the canvas; a point whose source lies outside the image
  is not painted.
\<close>

fun paint :: "draw_op \<Rightarrow> (rat \<Rightarrow> rat \<Rightarrow> colour) \<Rightarrow> rat \<Rightarrow> rat \<Rightarrow> colour" where
  "paint (FillRect c x y w h) below px py =
     (if in_rect x y w h px py then c else below px py)"
| "paint (DrawImage img sx sy sw sh dx dy dw dh) below px py =
     (if in_rect dx dy dw dh px py
        \<and> in_rect 0 0 (of_nat (naturalWidth img)) (of_nat (naturalHeight img))
             (sx + (px - dx) * sw / dw) (sy + (py - dy) * sh / dh)
      then pixel img (sx + (px - dx) * sw / dw) (sy + (py - dy) * sh / dh)
      else below px py)"
| "paint (FillCircle c cx cy r) below px py =
     (if (px - cx) * (px - cx) + (py - cy) * (py - cy) \<le> r * r then c else below px py)"
| "paint (StrokeCircle c lw cx cy r) below px py =
     (if (px - cx) * (px - cx) + (py - cy) * (py - cy) \<le> (r + lw / 2) * (r + lw / 2)
        \<and> (r \<le> lw / 2
           \<or> (r - lw / 2) * (r - lw / 2) \<le> (px - cx) * (px - cx) + (py - cy) * (py - cy))
      then c else below px py)"

definition render :: "canvas \<Rightarrow> rat \<Rightarrow> rat \<Rightarrow> colour" where
  "render c = foldl (\<lambda>below op. paint op below) (\<lambda>px py. transparent) (ops c)"

definition image_of_canvas :: "canvas \<Rightarrow> image" where
  \<comment> \<open>the image a canvas is exported as\<close>
  "image_of_canvas c = \<lparr>naturalWidth = width c, naturalHeight = height c, pixel = render c\<rparr>"

definition drawImage3 :: "image \<Rightarrow> rat \<Rightarrow> rat \<Rightarrow> draw_op" where
  \<comment> \<open>\<^verbatim>\<open>ctx.drawImage(img, dx, dy)\<close>\<close>
  "drawImage3 img dx dy =
     DrawImage img 0 0 (of_nat (naturalWidth img)) (of_nat (naturalHeight img))
       dx dy (of_nat (naturalWidth img)) (of_nat (naturalHeight img))"

definition drawImage5 :: "image \<Rightarrow> rat \<Rightarrow> rat \<Rightarrow> rat \<Rightarrow> rat \<Rightarrow> draw_op" where
  \<comment> \<open>\<^verbatim>\<open>ctx.drawImage(img, dx, dy, dw, dh)\<close>\<close>
  "drawImage5 img dx dy dw dh =
     DrawImage img 0 0 (of_nat (naturalWidth img)) (of_nat (naturalHeight img)) dx dy dw dh"

text \<open>
  A file is its name and its content as a data URL. The browser is a parameter of the
  client code: whether a \<^verbatim>\<open>FileReader\<close> succeeds, whether a canvas gives a 2D
  context and a blob, how an image is encoded as a data URL, and which image a data URL
  decodes to (\<open>None\<close>: the image's \<^verbatim>\<open>onerror\<close> fires).
\<close>

datatype image_file = File string string

record browser =
  readOk :: bool
  contextOk :: bool
  blobOk :: bool
  encode :: "image \<Rightarrow> string"
  decode :: "string \<Rightarrow> image option"

text \<open>
  A rejected promise: an \<^verbatim>\<open>Error\<close> with its message, or the error event of a
  reader or an image.
\<close>

datatype failure = Thrown string | ErrorEvent

definition file_name :: "image_file \<Rightarrow> string" where
  "file_name f = (case f of File n u \<Rightarrow> n)"

definition fileToBase64 :: "browser \<Rightarrow> image_file \<Rightarrow> failure + string" where
  "fileToBase64 br f = (case f of File n u \<Rightarrow> if readOk br then Inr u else Inl ErrorEvent)"

section \<open>The client service: services/geminiService.ts\<close>

subsection \<open>Padding, cropping and marking\<close>

definition padImageToSquare_canvas :: "image \<Rightarrow> canvas" where
  \<comment> \<open>the canvas \<open>padImageToSquare\<close> draws once the image has loaded\<close>
  "padImageToSquare_canvas img =
     (let naturalWidth = naturalWidth img; naturalHeight = naturalHeight img;
          size = max naturalWidth naturalHeight;
          x = (of_nat size - of_nat naturalWidth) / 2;
          y = (of_nat size - of_nat naturalHeight) / 2
      in \<lparr>width = size, height = size,
          ops = [FillRect ''black'' 0 0 (of_nat size) (of_nat size),
                 drawImage5 img x y (of_nat naturalWidth) (of_nat naturalHeight)]\<rparr>)"

definition toBlob :: "browser \<Rightarrow> canvas \<Rightarrow> string option" where
  \<comment> \<open>\<^verbatim>\<open>canvas.toBlob\<close>: no blob for a canvas without pixels\<close>
  "toBlob br c =
     (if blobOk br \<and> 0 < width c \<and> 0 < height c then Some (encode br (image_of_canvas c))
      else None)"

definition padImageToSquare :: "browser \<Rightarrow> image_file \<Rightarrow> failure + (image_file \<times> nat \<times> nat)" where
  "padImageToSquare br imageFile =
     (case imageFile of File name url \<Rightarrow>
        (if \<not> readOk br then Inl ErrorEvent
         else if url = [] then Inl (Thrown ''Could not read file'')
         else (case decode br url of
            None \<Rightarrow> Inl ErrorEvent
          | Some img \<Rightarrow>
             (if \<not> contextOk br then Inl (Thrown ''Could not get canvas context for padding'')
              else (case toBlob br (padImageToSquare_canvas img) of
                 Some blob \<Rightarrow> Inr (File name blob, naturalWidth img, naturalHeight img)
               | None \<Rightarrow> Inl (Thrown ''Canvas to Blob conversion failed for padding''))))))"



text \<open>
  \<open>cropSquareToOriginal\<close> in the arithmetic of doubles: the result of every subtraction,
  division and multiplication is rounded by \<open>binary64\<close>.
\<close>

definition cropSquareToOriginal_canvas64 :: "image \<Rightarrow> nat \<Rightarrow> nat \<Rightarrow> canvas" where
  "cropSquareToOriginal_canvas64 img originalWidth originalHeight =
     (let newSize = of_nat (naturalWidth img) :: rat;
          originalSize = of_nat (max originalWidth originalHeight) :: rat
      in if originalSize = 0
         then \<lparr>width = originalWidth, height = originalHeight, ops = []\<rparr>
         else
          (let ratioX = binary64 (binary64 (binary64 (originalSize - of_nat originalWidth) / 2)
                          / originalSize);
               ratioY = binary64 (binary64 (binary64 (originalSize - of_nat originalHeight) / 2)
                          / originalSize);
               ratioW = binary64 (of_nat originalWidth / originalSize);
               ratioH = binary64 (of_nat originalHeight / originalSize);
               sourceX = binary64 (newSize * ratioX);
               sourceY = binary64 (newSize * ratioY);
               sourceWidth = binary64 (newSize * ratioW);
               sourceHeight = binary64 (newSize * ratioH)
           in \<lparr>width = originalWidth, height = originalHeight,
               ops = [DrawImage img sourceX sourceY sourceWidth sourceHeight
                        0 0 (of_nat originalWidth) (of_nat originalHeight)]\<rparr>))"

definition cropSquareToOriginal64 :: "browser \<Rightarrow> string option \<Rightarrow> nat \<Rightarrow> nat
    \<Rightarrow> failure + string" where
  "cropSquareToOriginal64 br dataUrl originalWidth originalHeight =
     (case dataUrl of
        None \<Rightarrow> Inl ErrorEvent
      | Some url \<Rightarrow>
         (case decode br url of
            None \<Rightarrow> Inl ErrorEvent
          | Some img \<Rightarrow>
              if \<not> contextOk br
              then Inl (Thrown ''Could not get canvas context for cropping'')
              else Inr (encode br (image_of_canvas
                     (cropSquareToOriginal_canvas64 img originalWidth originalHeight)))))"

definition marker_fill :: colour where
  "marker_fill = ''rgba(0, 255, 255, 0.7)''"

definition marker_stroke :: colour where
  "marker_stroke = ''rgba(255, 255, 255, 0.8)''"

definition drawHotspotOnImage_canvas :: "image \<Rightarrow> rat \<times> rat \<Rightarrow> canvas" where
  "drawHotspotOnImage_canvas img spot =
     (let naturalWidth = naturalWidth img; naturalHeight = naturalHeight img;
          radius = of_nat (min naturalWidth naturalHeight) * (15 / 1000)
      in \<lparr>width = naturalWidth, height = naturalHeight,
          ops = [drawImage3 img 0 0,
                 FillCircle marker_fill (fst spot) (snd spot) radius,
                 StrokeCircle marker_stroke 2 (fst spot) (snd spot) radius]\<rparr>)"

definition drawHotspotOnImage :: "browser \<Rightarrow> image_file \<Rightarrow> rat \<times> rat \<Rightarrow> failure + image_file" where
  "drawHotspotOnImage br imageFile spot =
     (case imageFile of File name url \<Rightarrow>
        (if \<not> readOk br then Inl ErrorEvent
         else if url = [] then Inl (Thrown ''Could not read file for hotspot drawing'')
         else (case decode br url of
            None \<Rightarrow> Inl ErrorEvent
          | Some img \<Rightarrow>
             (if \<not> contextOk br
              then Inl (Thrown ''Could not get canvas context for hotspot drawing'')
              else (case toBlob br (drawHotspotOnImage_canvas img spot) of
                 Some blob \<Rightarrow> Inr (File name blob)
               | None \<Rightarrow> Inl (Thrown ''Canvas to Blob conversion failed for hotspot drawing''))))))"

definition paddedHotspot :: "nat \<Rightarrow> nat \<Rightarrow> rat \<times> rat \<Rightarrow> rat \<times> rat" where
  \<comment> \<open>the hotspot adjusted for the padded image\<close>
  "paddedHotspot originalWidth originalHeight spot =
     (let size = max originalWidth originalHeight
      in (fst spot + (of_nat size - of_nat originalWidth) / 2,
          snd spot + (of_nat size - of_nat originalHeight) / 2))"

subsection \<open>Requests to the relay\<close>

definition empty_body :: req_body where
  "empty_body = \<lparr>op_type = None, originalImage = None, userPrompt = None, hotspot = None,
     filterPrompt = None, adjustmentPrompt = None, objectImage = None, images = None,
     targetDimensions = None, direction = None\<rparr>"

definition json_syntax_error :: string where
  \<comment> \<open>the message of the SyntaxError of \<^verbatim>\<open>response.json()\<close> on an empty body\<close>
  "json_syntax_error = ''Unexpected end of JSON input''"

text \<open>
  \<^verbatim>\<open>fetch('/api/generate', {method: 'POST', ...})\<close> and the reading of the answer,
  which every service function repeats: \<open>relay\<close> is the deployed handler, and
  \<open>fallback\<close> is the function's default error message. The result is
  \<^verbatim>\<open>result.data\<close>, which may be undefined.
\<close>

definition api_generate :: "(request \<Rightarrow> http_response) \<Rightarrow> req_body \<Rightarrow> string
    \<Rightarrow> failure + string option" where
  "api_generate relay b fallback =
     (let response = relay \<lparr>req_method = ''POST'', body = b\<rparr>
      in if \<not> (200 \<le> status response \<and> status response \<le> 299)
         then (case payload response of
                 NoBody \<Rightarrow> Inl (Thrown json_syntax_error)
               | ErrorBody e \<Rightarrow> Inl (Thrown (or_else (Some e) fallback))
               | ErrorDetailsBody e d \<Rightarrow> Inl (Thrown (or_else (Some e) fallback))
               | SuccessBody d \<Rightarrow> Inl (Thrown fallback))
         else (case payload response of
                 NoBody \<Rightarrow> Inl (Thrown json_syntax_error)
               | ErrorBody e \<Rightarrow> Inr None
               | ErrorDetailsBody e d \<Rightarrow> Inr None
               | SuccessBody d \<Rightarrow> Inr (Some d)))"

definition error_imagen :: string where
  "error_imagen = ''Error en la generaci'' @ [CHR 0xC3, CHR 0xB3] @ ''n de imagen''"

definition error_filtro :: string where
  "error_filtro = ''Error en la generaci'' @ [CHR 0xC3, CHR 0xB3] @ ''n de filtro''"

definition error_ajuste :: string where
  "error_ajuste = ''Error en la generaci'' @ [CHR 0xC3, CHR 0xB3] @ ''n de ajuste''"

definition error_objeto :: string where
  "error_objeto = ''Error en la colocaci'' @ [CHR 0xC3, CHR 0xB3] @ ''n de objeto''"

definition error_grid :: string where
  "error_grid = ''Error en la generaci'' @ [CHR 0xC3, CHR 0xB3] @ ''n de grid''"

definition error_expansion :: string where
  "error_expansion = ''Error en la expansi'' @ [CHR 0xC3, CHR 0xB3] @ ''n de imagen''"

text \<open>
  Each service function first builds the body it sends (\<open>_request\<close>, with the
  original dimensions where it pads), then posts it and crops the answer.
\<close>

definition generateEditedImage_request :: "browser \<Rightarrow> image_file \<Rightarrow> string \<Rightarrow> rat \<times> rat
    \<Rightarrow> failure + (req_body \<times> nat \<times> nat)" where
  "generateEditedImage_request br original up spot =
     (case padImageToSquare br original of
        Inl e \<Rightarrow> Inl e
      | Inr (paddedImage, originalWidth, originalHeight) \<Rightarrow>
         (case drawHotspotOnImage br paddedImage (paddedHotspot originalWidth originalHeight spot) of
            Inl e \<Rightarrow> Inl e
          | Inr imageWithHotspot \<Rightarrow>
             (case fileToBase64 br imageWithHotspot of
                Inl e \<Rightarrow> Inl e
              | Inr imageBase64 \<Rightarrow>
                  Inr (empty_body\<lparr>op_type := Some ''edit'', originalImage := Some imageBase64,
                         userPrompt := Some up,
                         hotspot := Some (paddedHotspot originalWidth originalHeight spot)\<rparr>,
                       originalWidth, originalHeight))))"

definition post_and_crop :: "browser \<Rightarrow> (request \<Rightarrow> http_response) \<Rightarrow> string
    \<Rightarrow> failure + (req_body \<times> nat \<times> nat) \<Rightarrow> failure + string" where
  \<comment> \<open>the second half of the four functions that pad: post, then crop the answer\<close>
  "post_and_crop br relay fallback prepared =
     (case prepared of
        Inl e \<Rightarrow> Inl e
      | Inr (b, originalWidth, originalHeight) \<Rightarrow>
         (case api_generate relay b fallback of
            Inl e \<Rightarrow> Inl e
          | Inr squareImageUrl \<Rightarrow>
              cropSquareToOriginal64 br squareImageUrl originalWidth originalHeight))"

definition generateEditedImage :: "browser \<Rightarrow> (request \<Rightarrow> http_response) \<Rightarrow> image_file
    \<Rightarrow> string \<Rightarrow> rat \<times> rat \<Rightarrow> failure + string" where
  "generateEditedImage br relay original up spot =
     post_and_crop br relay error_imagen (generateEditedImage_request br original up spot)"

definition generateFilteredImage_request :: "browser \<Rightarrow> image_file \<Rightarrow> string
    \<Rightarrow> failure + (req_body \<times> nat \<times> nat)" where
  "generateFilteredImage_request br original fp =
     (case padImageToSquare br original of
        Inl e \<Rightarrow> Inl e
      | Inr (paddedImage, originalWidth, originalHeight) \<Rightarrow>
         (case fileToBase64 br paddedImage of
            Inl e \<Rightarrow> Inl e
          | Inr imageBase64 \<Rightarrow>
              Inr (empty_body\<lparr>op_type := Some ''filter'', originalImage := Some imageBase64,
                     filterPrompt := Some fp\<rparr>,
                   originalWidth, originalHeight)))"

definition generateFilteredImage :: "browser \<Rightarrow> (request \<Rightarrow> http_response) \<Rightarrow> image_file
    \<Rightarrow> string \<Rightarrow> failure + string" where
  "generateFilteredImage br relay original fp =
     post_and_crop br relay error_filtro (generateFilteredImage_request br original fp)"

definition generateAdjustedImage_request :: "browser \<Rightarrow> image_file \<Rightarrow> string
    \<Rightarrow> failure + (req_body \<times> nat \<times> nat)" where
  "generateAdjustedImage_request br original ap =
     (case padImageToSquare br original of
        Inl e \<Rightarrow> Inl e
      | Inr (paddedImage, originalWidth, originalHeight) \<Rightarrow>
         (case fileToBase64 br paddedImage of
            Inl e \<Rightarrow> Inl e
          | Inr imageBase64 \<Rightarrow>
              Inr (empty_body\<lparr>op_type := Some ''adjustment'', originalImage := Some imageBase64,
                     adjustmentPrompt := Some ap\<rparr>,
                   originalWidth, originalHeight)))"

definition generateAdjustedImage :: "browser \<Rightarrow> (request \<Rightarrow> http_response) \<Rightarrow> image_file
    \<Rightarrow> string \<Rightarrow> failure + string" where
  "generateAdjustedImage br relay original ap =
     post_and_crop br relay error_ajuste (generateAdjustedImage_request br original ap)"

definition generatePlacedImage_request :: "browser \<Rightarrow> image_file \<Rightarrow> image_file \<Rightarrow> string
    \<Rightarrow> rat \<times> rat \<Rightarrow> failure + (req_body \<times> nat \<times> nat)" where
  "generatePlacedImage_request br original object up spot =
     (case padImageToSquare br original of
        Inl e \<Rightarrow> Inl e
      | Inr (paddedImage, originalWidth, originalHeight) \<Rightarrow>
         (case drawHotspotOnImage br paddedImage (paddedHotspot originalWidth originalHeight spot) of
            Inl e \<Rightarrow> Inl e
          | Inr imageWithHotspot \<Rightarrow>
             (case fileToBase64 br imageWithHotspot of
                Inl e \<Rightarrow> Inl e
              | Inr sceneImageBase64 \<Rightarrow>
                 (case fileToBase64 br object of
                    Inl e \<Rightarrow> Inl e
                  | Inr objectImageBase64 \<Rightarrow>
                      Inr (empty_body\<lparr>op_type := Some ''placement'',
                             originalImage := Some sceneImageBase64,
                             objectImage := Some objectImageBase64,
                             userPrompt := Some up,
                             hotspot := Some (paddedHotspot originalWidth originalHeight spot)\<rparr>,
                           originalWidth, originalHeight)))))"

definition generatePlacedImage :: "browser \<Rightarrow> (request \<Rightarrow> http_response) \<Rightarrow> image_file
    \<Rightarrow> image_file \<Rightarrow> string \<Rightarrow> rat \<times> rat \<Rightarrow> failure + string" where
  "generatePlacedImage br relay original object up spot =
     post_and_crop br relay error_objeto
       (generatePlacedImage_request br original object up spot)"

fun all_base64 :: "browser \<Rightarrow> image_file list \<Rightarrow> failure + string list" where
  \<comment> \<open>\<^verbatim>\<open>Promise.all(gridImages.map(file => fileToBase64(file)))\<close>\<close>
  "all_base64 br [] = Inr []"
| "all_base64 br (f # fs) =
     (case fileToBase64 br f of
        Inl e \<Rightarrow> Inl e
      | Inr u \<Rightarrow> (case all_base64 br fs of Inl e \<Rightarrow> Inl e | Inr us \<Rightarrow> Inr (u # us)))"

definition generateFromGrid_body :: "string list \<Rightarrow> string \<Rightarrow> (nat \<times> nat) option \<Rightarrow> req_body" where
  "generateFromGrid_body imageBase64Array up dims =
     empty_body\<lparr>op_type := Some ''grid'', images := Some imageBase64Array,
       userPrompt := Some up, targetDimensions := dims\<rparr>"

definition generateFromGrid :: "browser \<Rightarrow> (request \<Rightarrow> http_response) \<Rightarrow> image_file list
    \<Rightarrow> string \<Rightarrow> (nat \<times> nat) option \<Rightarrow> failure + string option" where
  "generateFromGrid br relay grid up dims =
     (case all_base64 br grid of
        Inl e \<Rightarrow> Inl e
      | Inr imageBase64Array \<Rightarrow>
          api_generate relay (generateFromGrid_body imageBase64Array up dims) error_grid)"

definition generateExpandedImage_body :: "string \<Rightarrow> string \<Rightarrow> string \<Rightarrow> req_body" where
  "generateExpandedImage_body imageBase64 dir up =
     empty_body\<lparr>op_type := Some ''expand'', originalImage := Some imageBase64,
       direction := Some dir, userPrompt := Some up\<rparr>"

definition generateExpandedImage :: "browser \<Rightarrow> (request \<Rightarrow> http_response) \<Rightarrow> image_file
    \<Rightarrow> string \<Rightarrow> string \<Rightarrow> failure + string option" where
  "generateExpandedImage br relay original dir up =
     (case fileToBase64 br original of
        Inl e \<Rightarrow> Inl e
      | Inr imageBase64 \<Rightarrow>
          api_generate relay (generateExpandedImage_body imageBase64 dir up) error_expansion)"

section \<open>The editor's state: App.tsx\<close>

datatype tab = Retouch | Place | Grid | Expand | Adjust | Filters | CropTab

record app_state =
  history :: "image_file list"
  historyIndex :: int
  prompt :: string
  isLoading :: bool
  error :: "string option"
  editHotspot :: "(rat \<times> rat) option"
  displayHotspot :: "(rat \<times> rat) option"
  activeTab :: tab
  placementObject :: "image_file option"
  placementPrompt :: string
  justPlacedObject :: bool
  gridImages :: "image_file list"
  gridPrompt :: string
  crop :: "(rat \<times> rat \<times> rat \<times> rat) option"
  completedCrop :: "(rat \<times> rat \<times> rat \<times> rat) option"

definition initial_state :: app_state where
  "initial_state = \<lparr>history = [], historyIndex = - 1, prompt = [], isLoading = False,
     error = None, editHotspot = None, displayHotspot = None, activeTab = Retouch,
     placementObject = None, placementPrompt = [], justPlacedObject = False,
     gridImages = [], gridPrompt = [], crop = None, completedCrop = None\<rparr>"

definition js_slice :: "'a list \<Rightarrow> int \<Rightarrow> int \<Rightarrow> 'a list" where
  \<comment> \<open>\<^verbatim>\<open>Array.prototype.slice(start, end)\<close>: a negative index counts from the end\<close>
  "js_slice xs start fin =
     (let len = int (length xs);
          k = (if start < 0 then max (len + start) 0 else min start len);
          final = (if fin < 0 then max (len + fin) 0 else min fin len)
      in take (nat (final - k)) (drop (nat k) xs))"

definition currentImage :: "app_state \<Rightarrow> image_file option" where
  \<comment> \<open>\<^verbatim>\<open>history[historyIndex] ?? null\<close>\<close>
  "currentImage st =
     (if 0 \<le> historyIndex st \<and> historyIndex st < int (length (history st))
      then Some (history st ! nat (historyIndex st)) else None)"

definition canUndo :: "app_state \<Rightarrow> bool" where
  "canUndo st = (0 < historyIndex st)"

definition canRedo :: "app_state \<Rightarrow> bool" where
  "canRedo st = (historyIndex st < int (length (history st)) - 1)"

definition addImageToHistory :: "app_state \<Rightarrow> image_file \<Rightarrow> app_state" where
  "addImageToHistory st newImageFile =
     (let newHistory = js_slice (history st) 0 (historyIndex st + 1) @ [newImageFile]
      in st\<lparr>history := newHistory, historyIndex := int (length newHistory) - 1,
            crop := None, completedCrop := None, editHotspot := None,
            displayHotspot := None\<rparr>)"

definition handleImageUpload :: "app_state \<Rightarrow> image_file \<Rightarrow> app_state" where
  "handleImageUpload st f =
     st\<lparr>error := None, history := [f], historyIndex := 0, editHotspot := None,
        displayHotspot := None, activeTab := Retouch, crop := None, completedCrop := None,
        placementObject := None, placementPrompt := [], justPlacedObject := False,
        gridImages := [], gridPrompt := []\<rparr>"

definition error_message :: "failure \<Rightarrow> string" where
  \<comment> \<open>\<^verbatim>\<open>err instanceof Error ? err.message : 'An unknown error occurred.'\<close>\<close>
  "error_message e = (case e of Thrown m \<Rightarrow> m | ErrorEvent \<Rightarrow> ''An unknown error occurred.'')"

text \<open>
  A generation handler awaits a service function and converts the data URL it gets with
  \<^verbatim>\<open>dataURLtoFile\<close>. What these two steps of the \<^verbatim>\<open>try\<close> block give is the
  handler's parameter \<open>outcome\<close>: the failure that was thrown, or the new file. The state
  updates of one handler are applied as one step.
\<close>

definition handleGenerate :: "app_state \<Rightarrow> failure + image_file \<Rightarrow> app_state" where
  "handleGenerate st outcome =
     (if currentImage st = None then st\<lparr>error := Some ''No image loaded to edit.''\<rparr>
      else if js_trim (prompt st) = []
        then st\<lparr>error := Some ''Please enter a description for your edit.''\<rparr>
      else if editHotspot st = None
        then st\<lparr>error := Some ''Please click on the image to select an area to edit.''\<rparr>
      else
        (let st1 = st\<lparr>isLoading := True, error := None, justPlacedObject := False\<rparr>;
             st2 = (case outcome of
                      Inr newImageFile \<Rightarrow> addImageToHistory st1 newImageFile
                    | Inl err \<Rightarrow>
                        st1\<lparr>error := Some (''Failed to generate the image. '' @ error_message err)\<rparr>)
         in st2\<lparr>isLoading := False\<rparr>))"

definition handleApplyFilter :: "app_state \<Rightarrow> failure + image_file \<Rightarrow> app_state" where
  "handleApplyFilter st outcome =
     (if currentImage st = None
        then st\<lparr>error := Some ''No image loaded to apply a filter to.''\<rparr>
      else
        (let st1 = st\<lparr>isLoading := True, error := None, justPlacedObject := False\<rparr>;
             st2 = (case outcome of
                      Inr newImageFile \<Rightarrow> addImageToHistory st1 newImageFile
                    | Inl err \<Rightarrow>
                        st1\<lparr>error := Some (''Failed to apply the filter. '' @ error_message err)\<rparr>)
         in st2\<lparr>isLoading := False\<rparr>))"

definition handleApplyAdjustment :: "app_state \<Rightarrow> failure + image_file \<Rightarrow> app_state" where
  "handleApplyAdjustment st outcome =
     (if currentImage st = None
        then st\<lparr>error := Some ''No image loaded to apply an adjustment to.''\<rparr>
      else
        (let st1 = st\<lparr>isLoading := True, error := None, justPlacedObject := False\<rparr>;
             st2 = (case outcome of
                      Inr newImageFile \<Rightarrow> addImageToHistory st1 newImageFile
                    | Inl err \<Rightarrow>
                        st1\<lparr>error := Some (''Failed to apply the adjustment. '' @ error_message err)\<rparr>)
         in st2\<lparr>isLoading := False\<rparr>))"

definition handlePlaceObject :: "app_state \<Rightarrow> failure + image_file \<Rightarrow> app_state" where
  "handlePlaceObject st outcome =
     (if currentImage st = None
        then st\<lparr>error := Some ''No image loaded to place an object on.''\<rparr>
      else if placementObject st = None
        then st\<lparr>error := Some ''No object image provided to place.''\<rparr>
      else if editHotspot st = None
        then st\<lparr>error :=
               Some ''Please click on the image to select a location to place the object.''\<rparr>
      else if js_trim (placementPrompt st) = []
        then st\<lparr>error := Some ''Please enter a description for how to place the object.''\<rparr>
      else
        (let st1 = st\<lparr>isLoading := True, error := None\<rparr>;
             st2 = (case outcome of
                      Inr newImageFile \<Rightarrow>
                        (addImageToHistory st1 newImageFile)\<lparr>justPlacedObject := True\<rparr>
                    | Inl err \<Rightarrow>
                        st1\<lparr>error := Some (''Failed to place the object. '' @ error_message err)\<rparr>)
         in st2\<lparr>isLoading := False\<rparr>))"

text \<open>
  \<open>imgRef\<close> is the image element on display (\<^verbatim>\<open>imgRef.current\<close>), if there is one.
\<close>

definition handleGenerateGrid :: "app_state \<Rightarrow> image option \<Rightarrow> failure + image_file
    \<Rightarrow> app_state" where
  "handleGenerateGrid st imgRef outcome =
     (if gridImages st = []
        then st\<lparr>error := Some ''Please upload one or more images for the grid.''\<rparr>
      else if js_trim (gridPrompt st) = []
        then st\<lparr>error :=
               Some ''Please enter a prompt to describe the scene you want to create.''\<rparr>
      else if imgRef = None
        then st\<lparr>error :=
               Some ''Cannot determine output dimensions as no base image is loaded.''\<rparr>
      else
        (let st1 = st\<lparr>isLoading := True, error := None, justPlacedObject := False\<rparr>;
             st2 = (case outcome of
                      Inr newImageFile \<Rightarrow>
                        (addImageToHistory st1 newImageFile)
                          \<lparr>activeTab := Retouch, gridImages := [], gridPrompt := []\<rparr>
                    | Inl err \<Rightarrow>
                        st1\<lparr>error := Some (''Failed to generate from grid. '' @ error_message err)\<rparr>)
         in st2\<lparr>isLoading := False\<rparr>))"

definition handleExpandImage :: "app_state \<Rightarrow> failure + image_file \<Rightarrow> app_state" where
  "handleExpandImage st outcome =
     (if currentImage st = None then st\<lparr>error := Some ''No image loaded to expand.''\<rparr>
      else
        (let st1 = st\<lparr>isLoading := True, error := None, justPlacedObject := False\<rparr>;
             st2 = (case outcome of
                      Inr newImageFile \<Rightarrow> addImageToHistory st1 newImageFile
                    | Inl err \<Rightarrow>
                        st1\<lparr>error := Some (''Failed to expand the image. '' @ error_message err)\<rparr>)
         in st2\<lparr>isLoading := False\<rparr>))"

text \<open>
  \<open>handleApplyCrop\<close> draws the selected area on a canvas and adds the exported file,
  here the parameter \<open>newImageFile\<close>, to the history.
\<close>

definition handleApplyCrop :: "app_state \<Rightarrow> image option \<Rightarrow> bool \<Rightarrow> image_file \<Rightarrow> app_state" where
  "handleApplyCrop st imgRef ctxOk newImageFile =
     (if completedCrop st = None \<or> imgRef = None
        then st\<lparr>error := Some ''Please select an area to crop.''\<rparr>
      else if \<not> ctxOk
        then st\<lparr>justPlacedObject := False, error := Some ''Could not process the crop.''\<rparr>
      else addImageToHistory (st\<lparr>justPlacedObject := False\<rparr>) newImageFile)"

definition handleUndo :: "app_state \<Rightarrow> app_state" where
  "handleUndo st =
     (if canUndo st
      then st\<lparr>historyIndex := historyIndex st - 1, editHotspot := None,
             displayHotspot := None, justPlacedObject := False\<rparr>
      else st)"

definition handleRedo :: "app_state \<Rightarrow> app_state" where
  "handleRedo st =
     (if canRedo st
      then st\<lparr>historyIndex := historyIndex st + 1, editHotspot := None,
             displayHotspot := None\<rparr>
      else st)"

definition handleReset :: "app_state \<Rightarrow> app_state" where
  "handleReset st =
     (if 0 < length (history st)
      then st\<lparr>historyIndex := 0, error := None, editHotspot := None,
             displayHotspot := None, justPlacedObject := False\<rparr>
      else st)"

definition handleUploadNew :: "app_state \<Rightarrow> app_state" where
  "handleUploadNew st =
     st\<lparr>history := [], historyIndex := - 1, error := None, prompt := [],
        editHotspot := None, displayHotspot := None, placementObject := None,
        placementPrompt := [], justPlacedObject := False, gridImages := [],
        gridPrompt := []\<rparr>"

definition handleStartGridMode :: "app_state \<Rightarrow> failure + image_file \<Rightarrow> app_state" where
  \<comment> \<open>\<open>placeholder\<close> is what \<^verbatim>\<open>createPlaceholderImage\<close> gives\<close>
  "handleStartGridMode st placeholder =
     (let st1 = st\<lparr>isLoading := True\<rparr>;
          st2 = (case placeholder of
                   Inr placeholderFile \<Rightarrow> (handleImageUpload st1 placeholderFile)\<lparr>activeTab := Grid\<rparr>
                 | Inl err \<Rightarrow>
                     st1\<lparr>error := Some (case err of Thrown m \<Rightarrow> m
                                         | ErrorEvent \<Rightarrow> ''Could not start Grid Combine mode.'')\<rparr>)
      in st2\<lparr>isLoading := False\<rparr>)"

text \<open>The handlers that change the history, as the actions a user can take.\<close>

datatype action =
    ImageUpload image_file
  | Generate "failure + image_file"
  | ApplyFilter "failure + image_file"
  | ApplyAdjustment "failure + image_file"
  | PlaceObject "failure + image_file"
  | GenerateGrid "image option" "failure + image_file"
  | ExpandImage "failure + image_file"
  | ApplyCrop "image option" bool image_file
  | Undo
  | Redo
  | Reset
  | UploadNew
  | StartGridMode "failure + image_file"

fun step :: "app_state \<Rightarrow> action \<Rightarrow> app_state" where
  "step st (ImageUpload f) = handleImageUpload st f"
| "step st (Generate outcome) = handleGenerate st outcome"
| "step st (ApplyFilter outcome) = handleApplyFilter st outcome"
| "step st (ApplyAdjustment outcome) = handleApplyAdjustment st outcome"
| "step st (PlaceObject outcome) = handlePlaceObject st outcome"
| "step st (GenerateGrid imgRef outcome) = handleGenerateGrid st imgRef outcome"
| "step st (ExpandImage outcome) = handleExpandImage st outcome"
| "step st (ApplyCrop imgRef ctxOk f) = handleApplyCrop st imgRef ctxOk f"
| "step st Undo = handleUndo st"
| "step st Redo = handleRedo st"
| "step st Reset = handleReset st"
| "step st UploadNew = handleUploadNew st"
| "step st (StartGridMode placeholder) = handleStartGridMode st placeholder"

definition history_inv :: "app_state \<Rightarrow> bool" where
  "history_inv st =
     (- 1 \<le> historyIndex st \<and> historyIndex st < int (length (history st))
      \<and> ((historyIndex st = - 1) = (history st = [])))"

section \<open>The geometry in the specification's terms\<close>

text \<open>
  For an image of width \<open>w\<close> and height \<open>h\<close>: the side \<open>S = max w h\<close> of the padded
  square, and the offset \<open>((S - w) / 2, (S - h) / 2)\<close> of the centred content in it.
\<close>

definition square_side :: "nat \<Rightarrow> nat \<Rightarrow> nat" where
  "square_side w h = max w h"

definition pad_offset_x :: "nat \<Rightarrow> nat \<Rightarrow> rat" where
  "pad_offset_x w h = (of_nat (square_side w h) - of_nat w) / 2"

definition pad_offset_y :: "nat \<Rightarrow> nat \<Rightarrow> rat" where
  "pad_offset_y w h = (of_nat (square_side w h) - of_nat h) / 2"

section \<open>Sample inputs\<close>

text \<open>Concrete inputs at which the theorems below are instantiated.\<close>

definition image_part :: part where
  "image_part = \<lparr>inlineData = Some \<lparr>mimeType = Some ''image/png'', data = Some ''AAAA''\<rparr>,
     part_text = None\<rparr>"

definition text_part :: part where
  "text_part = \<lparr>inlineData = None, part_text = Some ''done''\<rparr>"

definition response_with_image :: gen_response where
  "response_with_image = \<lparr>promptFeedback = None,
     candidates = Some [\<lparr>content = Some \<lparr>parts = Some [text_part, image_part]\<rparr>,
                         finishReason = Some ''STOP''\<rparr>],
     response_text = Some ''done''\<rparr>"

definition response_blocked :: gen_response where
  "response_blocked = \<lparr>promptFeedback =
       Some \<lparr>blockReason = Some ''SAFETY'', blockReasonMessage = None\<rparr>,
     candidates = None, response_text = None\<rparr>"

definition response_image_in_second_candidate :: gen_response where
  "response_image_in_second_candidate = \<lparr>promptFeedback = None,
     candidates = Some [\<lparr>content = Some \<lparr>parts = Some [text_part]\<rparr>,
                         finishReason = Some ''STOP''\<rparr>,
                        \<lparr>content = Some \<lparr>parts = Some [image_part]\<rparr>,
                         finishReason = Some ''STOP''\<rparr>],
     response_text = Some ''done''\<rparr>"

definition response_image_max_tokens :: gen_response where
  "response_image_max_tokens = \<lparr>promptFeedback = None,
     candidates = Some [\<lparr>content = Some \<lparr>parts = Some [image_part]\<rparr>,
                         finishReason = Some ''MAX_TOKENS''\<rparr>],
     response_text = None\<rparr>"


definition service_down :: genai where
  "service_down k c = Inl ''API key not valid''"




definition editing_state :: app_state where
  \<comment> \<open>one image loaded, an object just placed, a prompt and a hotspot chosen\<close>
  "editing_state = initial_state\<lparr>history := [File ''a.png'' ''ua''], historyIndex := 0,
     prompt := ''brighter'', editHotspot := Some (10, 20),
     placementObject := Some (File ''lamp.png'' ''ul''), placementPrompt := ''on the table'',
     justPlacedObject := True, gridImages := [File ''g.png'' ''ug''],
     gridPrompt := ''a living room''\<rparr>"

definition sample_actions :: "action list" where
  "sample_actions =
     [ImageUpload (File ''a.png'' ''ua''), ApplyFilter (Inr (File ''b.png'' ''ub'')),
      ApplyFilter (Inr (File ''c.png'' ''uc'')), Undo, Undo]"

definition sample_image :: image where
  \<comment> \<open>4 by 2, red on the left half and blue on the right\<close>
  "sample_image = \<lparr>naturalWidth = 4, naturalHeight = 2,
     pixel = (\<lambda>x y. if x < 2 then ''red'' else ''blue'')\<rparr>"

definition sample_browser :: browser where
  \<comment> \<open>every facility works; the file \<open>photo\<close> decodes to \<open>sample_image\<close>, and the
     file exported from its padded canvas to the image of that canvas\<close>
  "sample_browser = \<lparr>readOk = True, contextOk = True, blobOk = True,
     encode = (\<lambda>i. if naturalWidth i = 4 \<and> naturalHeight i = 4 then ''padded''
                     else ''other''),
     decode = (\<lambda>u. if u = ''photo'' then Some sample_image
                     else if u = ''padded''
                       then Some (image_of_canvas (padImageToSquare_canvas sample_image))
                     else None)\<rparr>"




definition screenshot :: image where
  \<comment> \<open>1170 by 2532, the size of a phone screenshot, all white\<close>
  "screenshot = \<lparr>naturalWidth = 1170, naturalHeight = 2532, pixel = (\<lambda>x y. ''white'')\<rparr>"

definition screenshot_browser :: browser where
  \<comment> \<open>every facility works; the file \<open>shot\<close> decodes to \<open>screenshot\<close>, and the
     file exported from its padded canvas to the image of that canvas\<close>
  "screenshot_browser = \<lparr>readOk = True, contextOk = True, blobOk = True,
     encode = (\<lambda>i. if naturalWidth i = 2532 \<and> naturalHeight i = 2532 then ''square''
                     else if naturalWidth i = 1170 \<and> naturalHeight i = 2532 then ''cropped''
                     else ''other''),
     decode = (\<lambda>u. if u = ''shot'' then Some screenshot
                     else if u = ''square''
                       then Some (image_of_canvas (padImageToSquare_canvas screenshot))
                     else None)\<rparr>"

section \<open>Verification\<close>

subsection \<open>The relay\<close>

lemma image_data_iff: "(image_data response \<noteq> None) = has_inline_image response"
  by (auto simp: image_data_def has_inline_image_def imagePartFromResponse_def
      first_candidate_def list_ex_iff find_None_iff find_Some_iff
      split: option.splits list.splits)

lemma handleApiResponse_Inr_iff:
  "(handleApiResponse response ctx = Inr url)
     = (\<not> truthy (block_reason response) \<and> (\<exists>d. image_data response = Some d \<and> url = data_url d))"
  by (auto simp: handleApiResponse_def split: option.splits)

lemma handleApiResponse_service_Inr_iff:
  "(handleApiResponse_service response ctx = Inr url)
     = (\<not> truthy (block_reason response) \<and> (\<exists>d. image_data response = Some d \<and> url = data_url d))"
  by (auto simp: handleApiResponse_service_def split: option.splits)



lemma generate_result:
  "fst (generate g k ps ctx) = (case g k \<lparr>model = image_model, contents = ps,
       responseModalities = [''IMAGE'', ''TEXT'']\<rparr> of
     Inl e \<Rightarrow> Inl e | Inr response \<Rightarrow> handleApiResponse response ctx)"
  by (simp add: generate_def Let_def)

lemma generate_calls:
  "snd (generate g k ps ctx) = [(k, \<lparr>model = image_model, contents = ps,
       responseModalities = [''IMAGE'', ''TEXT'']\<rparr>)]"
  by (simp add: generate_def Let_def)

lemma generate_Inr_data_url:
  "generate g k ps ctx = (Inr url, calls) \<Longrightarrow> \<exists>d. url = data_url d"
  by (auto simp: generate_def Let_def handleApiResponse_Inr_iff split: sum.splits)

lemma dispatch_Inr_data_url:
  "dispatch g k b = Some (Inr url, calls) \<Longrightarrow> \<exists>d. url = data_url d"
  by (auto simp: dispatch_def handleEditRequest_def handleFilterRequest_def
      handleAdjustmentRequest_def handlePlacementRequest_def
      split: if_splits sum.splits option.splits prod.splits
      dest: generate_Inr_data_url)

lemma dispatch_supported:
  "op_type b \<in> {Some ''edit'', Some ''filter'', Some ''adjustment'', Some ''placement''}
     \<Longrightarrow> dispatch g k b \<noteq> None"
  by (auto simp: dispatch_def)

lemma dispatch_unsupported:
  "op_type b \<notin> {Some ''edit'', Some ''filter'', Some ''adjustment'', Some ''placement''}
     \<Longrightarrow> dispatch g k b = None"
  by (auto simp: dispatch_def)

lemma generate_calls_key: "(k', c) \<in> set (snd (generate g k ps ctx)) \<Longrightarrow> k' = k"
  by (simp add: generate_def Let_def)



lemma handler_supported:
  assumes "req_method req = ''POST''" "truthy (env ''GEMINI_API_KEY'')"
    "op_type (body req) \<in> {Some ''edit'', Some ''filter'', Some ''adjustment'', Some ''placement''}"
  shows "(\<exists>d. fst (handler g env req) = respond 200 (SuccessBody (data_url d)))
       \<or> (\<exists>m. fst (handler g env req) = respond 500 (ErrorDetailsBody ''Error interno del servidor'' m))"
proof (cases "dispatch g (the (env ''GEMINI_API_KEY'')) (body req)")
  case None
  with dispatch_supported [OF assms(3)] show ?thesis by blast
next
  case (Some rc)
  obtain r calls where rc: "rc = (r, calls)" by (cases rc)
  show ?thesis
  proof (cases r)
    case (Inl m)
    with Some rc assms(1,2) show ?thesis by (auto simp: handler_def)
  next
    case (Inr url)
    with Some rc dispatch_Inr_data_url obtain d where "url = data_url d" by blast
    with Some rc Inr assms(1,2) show ?thesis by (auto simp: handler_def)
  qed
qed

text \<open>
  Claim C7, amended. \<open>handleApiResponse\<close>, in the relay and in the older service alike,
  returns a data URL exactly when the prompt was not blocked and the first candidate of
  the response has an inline-image part, and throws otherwise; the URL is built from the
  MIME type and the data of the first such part; a blocked prompt is checked first;
  without an image, a finish reason other than STOP gives the "stopped unexpectedly"
  error. So the handler answers a request for one of the four supported operations
  either with status 200 and an image data URL or with status 500 and an error: never
  with text only or with nothing.
\<close>

theorem C7_image_or_error:
  "((\<exists>url. handleApiResponse response ctx = Inr url)
      = (\<not> truthy (block_reason response) \<and> has_inline_image response))
   \<and> ((\<exists>msg. handleApiResponse response ctx = Inl msg)
      = (truthy (block_reason response) \<or> \<not> has_inline_image response))
   \<and> (\<forall>url. handleApiResponse response ctx = Inr url \<longrightarrow>
        (\<exists>d. image_data response = Some d
           \<and> url = ''data:'' @ js_string (mimeType d) @ '';base64,'' @ js_string (data d)))
   \<and> (truthy (block_reason response) \<longrightarrow>
        handleApiResponse response ctx = Inl (blocked_message response))
   \<and> (\<not> truthy (block_reason response) \<and> \<not> has_inline_image response
        \<and> truthy (finish_reason response) \<and> finish_reason response \<noteq> Some ''STOP'' \<longrightarrow>
        handleApiResponse response ctx
          = Inl (''Image generation for '' @ ctx @ '' stopped unexpectedly. Reason: ''
                  @ js_string (finish_reason response)))
   \<and> ((\<exists>url. handleApiResponse_service response ctx = Inr url)
      = (\<not> truthy (block_reason response) \<and> has_inline_image response))
   \<and> ((\<exists>msg. handleApiResponse_service response ctx = Inl msg)
      = (truthy (block_reason response) \<or> \<not> has_inline_image response))
   \<and> (req_method req = ''POST'' \<and> truthy (env ''GEMINI_API_KEY'')
        \<and> op_type (body req)
             \<in> {Some ''edit'', Some ''filter'', Some ''adjustment'', Some ''placement''} \<longrightarrow>
        (\<exists>d. fst (handler g env req) = respond 200 (SuccessBody (data_url d)))
        \<or> (\<exists>m. fst (handler g env req)
               = respond 500 (ErrorDetailsBody ''Error interno del servidor'' m)))"
proof -
  have img: "(\<exists>d. image_data response = Some d) = has_inline_image response"
    using image_data_iff [of response] by auto
  have r1: "(\<exists>url. handleApiResponse response ctx = Inr url)
      = (\<not> truthy (block_reason response) \<and> has_inline_image response)"
    using img by (auto simp: handleApiResponse_Inr_iff)
  have s1: "(\<exists>url. handleApiResponse_service response ctx = Inr url)
      = (\<not> truthy (block_reason response) \<and> has_inline_image response)"
    using img by (auto simp: handleApiResponse_service_Inr_iff)
  have r2: "(\<exists>msg. handleApiResponse response ctx = Inl msg)
      = (truthy (block_reason response) \<or> \<not> has_inline_image response)"
    using r1 by (cases "handleApiResponse response ctx") auto
  have s2: "(\<exists>msg. handleApiResponse_service response ctx = Inl msg)
      = (truthy (block_reason response) \<or> \<not> has_inline_image response)"
    using s1 by (cases "handleApiResponse_service response ctx") auto
  have r3: "\<forall>url. handleApiResponse response ctx = Inr url \<longrightarrow>
        (\<exists>d. image_data response = Some d
           \<and> url = ''data:'' @ js_string (mimeType d) @ '';base64,'' @ js_string (data d))"
    by (auto simp: handleApiResponse_Inr_iff data_url_def)
  have r4: "truthy (block_reason response) \<longrightarrow>
        handleApiResponse response ctx = Inl (blocked_message response)"
    by (simp add: handleApiResponse_def)
  have r5: "\<not> truthy (block_reason response) \<and> \<not> has_inline_image response
        \<and> truthy (finish_reason response) \<and> finish_reason response \<noteq> Some ''STOP'' \<longrightarrow>
        handleApiResponse response ctx
          = Inl (''Image generation for '' @ ctx @ '' stopped unexpectedly. Reason: ''
                  @ js_string (finish_reason response))"
    using img by (auto simp: handleApiResponse_def split: option.splits)
  show ?thesis
    using r1 r2 r3 r4 r5 s1 s2 handler_supported [of req env g] by blast
qed

text \<open>
  Claim C7 at a response with a text part and an image part, and at a blocked one.
\<close>

theorem C7_image_or_error_witness:
  "handleApiResponse response_with_image ''edit'' = Inr ''data:image/png;base64,AAAA''
   \<and> handleApiResponse response_blocked ''edit'' = Inl ''Request was blocked. Reason: SAFETY. ''"
proof -
  have a: "\<not> truthy (block_reason response_with_image)" "has_inline_image response_with_image"
    "image_data response_with_image
       = Some \<lparr>mimeType = Some ''image/png'', data = Some ''AAAA''\<rparr>"
    by (simp_all add: response_with_image_def text_part_def image_part_def truthy_def
        block_reason_def has_inline_image_def image_data_def imagePartFromResponse_def
        first_candidate_def)
  have b: "truthy (block_reason response_blocked)"
    "blocked_message response_blocked = ''Request was blocked. Reason: SAFETY. ''"
    by (simp_all add: response_blocked_def truthy_def block_reason_def blocked_message_def
        block_message_def js_string_def or_else_def)
  show ?thesis
    using a b C7_image_or_error [of response_with_image "''edit''"]
      C7_image_or_error [of response_blocked "''edit''"]
    by (auto simp: js_string_def)
qed

text \<open>
  Claim C7 as stated fails in two places. Where only a later candidate has the image
  part, the response contains an inline-image part and the prompt is not blocked, yet the
  function throws. And where the first candidate has an image part and a finish reason
  other than STOP, the function returns the image: it does not throw.
\<close>

theorem C7_returns_by_first_candidate_only:
  "contains_inline_image response_image_in_second_candidate
   \<and> \<not> truthy (block_reason response_image_in_second_candidate)
   \<and> handleApiResponse response_image_in_second_candidate ''edit''
       = Inl (''The AI model did not return an image for the edit. ''
              @ ''The model responded with text: '' @ [CHR 0x22] @ ''done'' @ [CHR 0x22])
   \<and> truthy (finish_reason response_image_max_tokens)
   \<and> finish_reason response_image_max_tokens \<noteq> Some ''STOP''
   \<and> handleApiResponse response_image_max_tokens ''edit'' = Inr ''data:image/png;base64,AAAA''"
  by (simp add: response_image_in_second_candidate_def response_image_max_tokens_def
      text_part_def image_part_def contains_inline_image_def truthy_def block_reason_def
      handleApiResponse_def image_data_def imagePartFromResponse_def first_candidate_def
      finish_reason_def text_feedback_def js_trim_def white_space_def js_string_def data_url_def)

text \<open>
  Claim C2. The relay does not handle the request types \<open>grid\<close> and \<open>expand\<close> that
  \<open>generateFromGrid\<close> and \<open>generateExpandedImage\<close> send: it answers them with status
  400 and \<open>tipo_no_valido\<close> (500 when no key is configured) without calling the external
  service, so both service functions always fail.
\<close>

theorem C2_grid_and_expand_not_handled:
  "fst (handler g env \<lparr>req_method = ''POST'', body = generateFromGrid_body imgs up dims\<rparr>)
     = (if truthy (env ''GEMINI_API_KEY'') then respond 400 (ErrorBody tipo_no_valido)
        else respond 500 (ErrorBody ''API Key de Gemini no configurada''))
   \<and> snd (handler g env \<lparr>req_method = ''POST'', body = generateFromGrid_body imgs up dims\<rparr>) = []
   \<and> fst (handler g env \<lparr>req_method = ''POST'', body = generateExpandedImage_body img dir up\<rparr>)
     = (if truthy (env ''GEMINI_API_KEY'') then respond 400 (ErrorBody tipo_no_valido)
        else respond 500 (ErrorBody ''API Key de Gemini no configurada''))
   \<and> snd (handler g env \<lparr>req_method = ''POST'', body = generateExpandedImage_body img dir up\<rparr>) = []
   \<and> (\<exists>e. generateFromGrid br (\<lambda>r. fst (handler g env r)) grid up dims = Inl e)
   \<and> (\<exists>e. generateExpandedImage br (\<lambda>r. fst (handler g env r)) original dir up = Inl e)"
  by (auto simp: handler_def dispatch_def generateFromGrid_body_def generateExpandedImage_body_def
      empty_body_def generateFromGrid_def generateExpandedImage_def api_generate_def respond_def
      Let_def split: sum.splits)











subsection \<open>The editor's state\<close>

lemma js_slice_prefix:
  "- 1 \<le> i \<Longrightarrow> js_slice xs 0 (i + 1) = take (nat (i + 1)) xs"
  by (auto simp: js_slice_def Let_def min_def)

lemma history_inv_addImageToHistory: "history_inv (addImageToHistory st f)"
  by (simp add: history_inv_def addImageToHistory_def Let_def)

lemma history_inv_frame:
  "history st' = history st \<Longrightarrow> historyIndex st' = historyIndex st
     \<Longrightarrow> history_inv st \<Longrightarrow> history_inv st'"
  by (simp add: history_inv_def)

lemma history_inv_step: "history_inv st \<Longrightarrow> history_inv (step st a)"
proof (cases a)
  case (ImageUpload f)
  then show ?thesis by (simp add: history_inv_def handleImageUpload_def)
next
  case (Generate outcome)
  assume "history_inv st"
  then show ?thesis
    using Generate
    by (auto simp: handleGenerate_def Let_def history_inv_def addImageToHistory_def
        split: sum.splits)
next
  case (ApplyFilter outcome)
  assume "history_inv st"
  then show ?thesis
    using ApplyFilter
    by (auto simp: handleApplyFilter_def Let_def history_inv_def addImageToHistory_def
        split: sum.splits)
next
  case (ApplyAdjustment outcome)
  assume "history_inv st"
  then show ?thesis
    using ApplyAdjustment
    by (auto simp: handleApplyAdjustment_def Let_def history_inv_def addImageToHistory_def
        split: sum.splits)
next
  case (PlaceObject outcome)
  assume "history_inv st"
  then show ?thesis
    using PlaceObject
    by (auto simp: handlePlaceObject_def Let_def history_inv_def addImageToHistory_def
        split: sum.splits)
next
  case (GenerateGrid imgRef outcome)
  assume "history_inv st"
  then show ?thesis
    using GenerateGrid
    by (auto simp: handleGenerateGrid_def Let_def history_inv_def addImageToHistory_def
        split: sum.splits)
next
  case (ExpandImage outcome)
  assume "history_inv st"
  then show ?thesis
    using ExpandImage
    by (auto simp: handleExpandImage_def Let_def history_inv_def addImageToHistory_def
        split: sum.splits)
next
  case (ApplyCrop imgRef ctxOk f)
  assume "history_inv st"
  then show ?thesis
    using ApplyCrop
    by (auto simp: handleApplyCrop_def Let_def history_inv_def addImageToHistory_def)
next
  case Undo
  assume "history_inv st"
  then show ?thesis
    using Undo by (auto simp: handleUndo_def canUndo_def history_inv_def)
next
  case Redo
  assume "history_inv st"
  then show ?thesis
    using Redo by (auto simp: handleRedo_def canRedo_def history_inv_def)
next
  case Reset
  assume "history_inv st"
  then show ?thesis
    using Reset by (auto simp: handleReset_def history_inv_def)
next
  case UploadNew
  then show ?thesis by (simp add: handleUploadNew_def history_inv_def)
next
  case (StartGridMode placeholder)
  assume "history_inv st"
  then show ?thesis
    using StartGridMode
    by (auto simp: handleStartGridMode_def Let_def history_inv_def handleImageUpload_def
        split: sum.splits)
qed

lemma history_inv_foldl: "history_inv st \<Longrightarrow> history_inv (foldl step st acts)"
  by (induction acts arbitrary: st) (simp_all add: history_inv_step)

lemma history_inv_initial: "history_inv initial_state"
  by (simp add: history_inv_def initial_state_def)

lemma addImageToHistory_history:
  assumes "history_inv st"
  shows "history (addImageToHistory st f) = take (nat (historyIndex st + 1)) (history st) @ [f]"
    and "historyIndex (addImageToHistory st f) = int (length (history (addImageToHistory st f))) - 1"
    and "last (history (addImageToHistory st f)) = f"
    and "currentImage (addImageToHistory st f) = Some f"
proof -
  from assms have i: "- 1 \<le> historyIndex st"
    by (simp add: history_inv_def)
  show h: "history (addImageToHistory st f) = take (nat (historyIndex st + 1)) (history st) @ [f]"
    by (simp add: addImageToHistory_def Let_def js_slice_prefix [OF i])
  show x: "historyIndex (addImageToHistory st f)
      = int (length (history (addImageToHistory st f))) - 1"
    by (simp add: addImageToHistory_def Let_def)
  show "last (history (addImageToHistory st f)) = f"
    by (simp add: h)
  show "currentImage (addImageToHistory st f) = Some f"
    unfolding currentImage_def x by (simp add: h nth_append)
qed

text \<open>
  Claim C8. After any sequence of handlers from the initial state,
  \<open>-1 \<le> historyIndex < length history\<close> holds, and \<open>historyIndex = -1\<close> exactly when the
  history is empty; every handler preserves this. \<open>handleUndo\<close> decrements the index by
  one only when it is positive, \<open>handleRedo\<close> increments it by one only when it is below
  the last position, and neither changes the entries. \<open>addImageToHistory\<close> keeps the
  entries up to the current index, drops the later ones and appends the new image, which
  is then the last entry and the current image.
\<close>

theorem C8_history_invariant:
  "history_inv (foldl step initial_state acts)
   \<and> (history_inv st \<longrightarrow> history_inv (step st a))
   \<and> history (handleUndo st) = history st
   \<and> historyIndex (handleUndo st)
       = (if 0 < historyIndex st then historyIndex st - 1 else historyIndex st)
   \<and> history (handleRedo st) = history st
   \<and> historyIndex (handleRedo st)
       = (if historyIndex st < int (length (history st)) - 1 then historyIndex st + 1
          else historyIndex st)
   \<and> (history_inv st \<longrightarrow>
        history (addImageToHistory st f) = take (nat (historyIndex st + 1)) (history st) @ [f]
        \<and> historyIndex (addImageToHistory st f)
            = int (length (history (addImageToHistory st f))) - 1
        \<and> last (history (addImageToHistory st f)) = f
        \<and> currentImage (addImageToHistory st f) = Some f)"
  using history_inv_foldl [OF history_inv_initial, of acts] history_inv_step [of st a]
    addImageToHistory_history [of st f]
  by (simp add: handleUndo_def handleRedo_def canUndo_def canRedo_def)

text \<open>
  Claim C8 after an upload, two filters and two undos: the history has three entries and
  the index is 0; adding an image then leaves the first entry and the new one.
\<close>

theorem C8_history_invariant_witness:
  "history_inv (foldl step initial_state sample_actions)
   \<and> history (addImageToHistory (foldl step initial_state sample_actions) (File ''d.png'' ''ud''))
     = [File ''a.png'' ''ua'', File ''d.png'' ''ud'']
   \<and> historyIndex (addImageToHistory (foldl step initial_state sample_actions)
        (File ''d.png'' ''ud'')) = 1"
proof -
  let ?st = "foldl step initial_state sample_actions"
  have h: "history ?st = [File ''a.png'' ''ua'', File ''b.png'' ''ub'', File ''c.png'' ''uc'']"
    and i: "historyIndex ?st = 0"
    by (simp_all add: sample_actions_def initial_state_def handleImageUpload_def
        handleApplyFilter_def currentImage_def addImageToHistory_def js_slice_def
        handleUndo_def canUndo_def Let_def)
  have inv: "history_inv ?st"
    using C8_history_invariant [of sample_actions ?st Undo "File ''d.png'' ''ud''"] by blast
  have add: "history (addImageToHistory ?st (File ''d.png'' ''ud''))
      = take (nat (historyIndex ?st + 1)) (history ?st) @ [File ''d.png'' ''ud'']"
    "historyIndex (addImageToHistory ?st (File ''d.png'' ''ud''))
      = int (length (history (addImageToHistory ?st (File ''d.png'' ''ud'')))) - 1"
    using inv C8_history_invariant [of sample_actions ?st Undo "File ''d.png'' ''ud''"] by blast+
  have a1: "history (addImageToHistory ?st (File ''d.png'' ''ud''))
      = [File ''a.png'' ''ua'', File ''d.png'' ''ud'']"
    unfolding add(1) h i by simp
  have a2: "historyIndex (addImageToHistory ?st (File ''d.png'' ''ud'')) = 1"
    unfolding add(2) a1 by simp
  show ?thesis
    using inv a1 a2 by blast
qed

lemma failure_keeps_history:
  "history (handleGenerate st (Inl e)) = history st"
  "historyIndex (handleGenerate st (Inl e)) = historyIndex st"
  "history (handleApplyFilter st (Inl e)) = history st"
  "historyIndex (handleApplyFilter st (Inl e)) = historyIndex st"
  "history (handleApplyAdjustment st (Inl e)) = history st"
  "historyIndex (handleApplyAdjustment st (Inl e)) = historyIndex st"
  "history (handlePlaceObject st (Inl e)) = history st"
  "historyIndex (handlePlaceObject st (Inl e)) = historyIndex st"
  "history (handleGenerateGrid st imgRef (Inl e)) = history st"
  "historyIndex (handleGenerateGrid st imgRef (Inl e)) = historyIndex st"
  "history (handleExpandImage st (Inl e)) = history st"
  "historyIndex (handleExpandImage st (Inl e)) = historyIndex st"
  by (simp_all add: handleGenerate_def handleApplyFilter_def handleApplyAdjustment_def
      handlePlaceObject_def handleGenerateGrid_def handleExpandImage_def Let_def)

lemma handleGenerate_called:
  assumes "currentImage st \<noteq> None" "js_trim (prompt st) \<noteq> []" "editHotspot st \<noteq> None"
  shows "handleGenerate st (Inl e)
      = st\<lparr>justPlacedObject := False,
           error := Some (''Failed to generate the image. '' @ error_message e),
           isLoading := False\<rparr>"
    and "isLoading (handleGenerate st outcome) = False"
  by (simp_all add: assms handleGenerate_def Let_def)

lemma handleApplyFilter_called:
  assumes "currentImage st \<noteq> None"
  shows "handleApplyFilter st (Inl e)
      = st\<lparr>justPlacedObject := False,
           error := Some (''Failed to apply the filter. '' @ error_message e),
           isLoading := False\<rparr>"
    and "isLoading (handleApplyFilter st outcome) = False"
  by (simp_all add: assms handleApplyFilter_def Let_def)

lemma handleApplyAdjustment_called:
  assumes "currentImage st \<noteq> None"
  shows "handleApplyAdjustment st (Inl e)
      = st\<lparr>justPlacedObject := False,
           error := Some (''Failed to apply the adjustment. '' @ error_message e),
           isLoading := False\<rparr>"
    and "isLoading (handleApplyAdjustment st outcome) = False"
  by (simp_all add: assms handleApplyAdjustment_def Let_def)

lemma handlePlaceObject_called:
  assumes "currentImage st \<noteq> None" "placementObject st \<noteq> None" "editHotspot st \<noteq> None"
    "js_trim (placementPrompt st) \<noteq> []"
  shows "handlePlaceObject st (Inl e)
      = st\<lparr>error := Some (''Failed to place the object. '' @ error_message e),
           isLoading := False\<rparr>"
    and "isLoading (handlePlaceObject st outcome) = False"
  by (simp_all add: assms handlePlaceObject_def Let_def)

lemma handleGenerateGrid_called:
  assumes "gridImages st \<noteq> []" "js_trim (gridPrompt st) \<noteq> []" "imgRef \<noteq> None"
  shows "handleGenerateGrid st imgRef (Inl e)
      = st\<lparr>justPlacedObject := False,
           error := Some (''Failed to generate from grid. '' @ error_message e),
           isLoading := False\<rparr>"
    and "isLoading (handleGenerateGrid st imgRef outcome) = False"
  by (simp_all add: assms handleGenerateGrid_def Let_def)

lemma handleExpandImage_called:
  assumes "currentImage st \<noteq> None"
  shows "handleExpandImage st (Inl e)
      = st\<lparr>justPlacedObject := False,
           error := Some (''Failed to expand the image. '' @ error_message e),
           isLoading := False\<rparr>"
    and "isLoading (handleExpandImage st outcome) = False"
  by (simp_all add: assms handleExpandImage_def Let_def)

text \<open>
  Claim C9, amended. When the service call of a generation handler fails, the history
  and the history index are unchanged. Where the handler got as far as the call, the
  state it leaves is the state it started from with the error message set, \<open>isLoading\<close>
  false and, in every handler but \<open>handlePlaceObject\<close>, \<open>justPlacedObject\<close> cleared (each
  of the other five clears it before the call); and \<open>isLoading\<close> is false when such a
  handler finishes, on success and on failure alike.
\<close>

theorem C9_failure_keeps_history:
  "history (handleGenerate st (Inl e)) = history st
   \<and> historyIndex (handleGenerate st (Inl e)) = historyIndex st
   \<and> history (handleApplyFilter st (Inl e)) = history st
   \<and> historyIndex (handleApplyFilter st (Inl e)) = historyIndex st
   \<and> history (handleApplyAdjustment st (Inl e)) = history st
   \<and> historyIndex (handleApplyAdjustment st (Inl e)) = historyIndex st
   \<and> history (handlePlaceObject st (Inl e)) = history st
   \<and> historyIndex (handlePlaceObject st (Inl e)) = historyIndex st
   \<and> history (handleGenerateGrid st imgRef (Inl e)) = history st
   \<and> historyIndex (handleGenerateGrid st imgRef (Inl e)) = historyIndex st
   \<and> history (handleExpandImage st (Inl e)) = history st
   \<and> historyIndex (handleExpandImage st (Inl e)) = historyIndex st
   \<and> (currentImage st \<noteq> None \<and> js_trim (prompt st) \<noteq> [] \<and> editHotspot st \<noteq> None \<longrightarrow>
        handleGenerate st (Inl e)
          = st\<lparr>justPlacedObject := False,
               error := Some (''Failed to generate the image. '' @ error_message e),
               isLoading := False\<rparr>
        \<and> isLoading (handleGenerate st outcome) = False)
   \<and> (currentImage st \<noteq> None \<longrightarrow>
        handleApplyFilter st (Inl e)
          = st\<lparr>justPlacedObject := False,
               error := Some (''Failed to apply the filter. '' @ error_message e),
               isLoading := False\<rparr>
        \<and> isLoading (handleApplyFilter st outcome) = False)
   \<and> (currentImage st \<noteq> None \<longrightarrow>
        handleApplyAdjustment st (Inl e)
          = st\<lparr>justPlacedObject := False,
               error := Some (''Failed to apply the adjustment. '' @ error_message e),
               isLoading := False\<rparr>
        \<and> isLoading (handleApplyAdjustment st outcome) = False)
   \<and> (currentImage st \<noteq> None \<and> placementObject st \<noteq> None \<and> editHotspot st \<noteq> None
        \<and> js_trim (placementPrompt st) \<noteq> [] \<longrightarrow>
        handlePlaceObject st (Inl e)
          = st\<lparr>error := Some (''Failed to place the object. '' @ error_message e),
               isLoading := False\<rparr>
        \<and> isLoading (handlePlaceObject st outcome) = False)
   \<and> (gridImages st \<noteq> [] \<and> js_trim (gridPrompt st) \<noteq> [] \<and> imgRef \<noteq> None \<longrightarrow>
        handleGenerateGrid st imgRef (Inl e)
          = st\<lparr>justPlacedObject := False,
               error := Some (''Failed to generate from grid. '' @ error_message e),
               isLoading := False\<rparr>
        \<and> isLoading (handleGenerateGrid st imgRef outcome) = False)
   \<and> (currentImage st \<noteq> None \<longrightarrow>
        handleExpandImage st (Inl e)
          = st\<lparr>justPlacedObject := False,
               error := Some (''Failed to expand the image. '' @ error_message e),
               isLoading := False\<rparr>
        \<and> isLoading (handleExpandImage st outcome) = False)"
  by (simp add: failure_keeps_history handleGenerate_called handleApplyFilter_called
      handleApplyAdjustment_called handlePlaceObject_called handleGenerateGrid_called
      handleExpandImage_called)

lemma editing_state_ready:
  "currentImage editing_state = Some (File ''a.png'' ''ua'')"
  "js_trim (prompt editing_state) \<noteq> []"
  "editHotspot editing_state \<noteq> None"
  "placementObject editing_state \<noteq> None"
  "js_trim (placementPrompt editing_state) \<noteq> []"
  "gridImages editing_state \<noteq> []"
  "js_trim (gridPrompt editing_state) \<noteq> []"
  by (simp_all add: editing_state_def initial_state_def currentImage_def js_trim_def white_space_def)

text \<open>
  Claim C9 at a state with one image loaded where every handler reaches its call.
\<close>

theorem C9_failure_keeps_history_witness:
  "history (handleGenerate editing_state (Inl (Thrown ''quota''))) = [File ''a.png'' ''ua'']
   \<and> historyIndex (handleGenerate editing_state (Inl (Thrown ''quota''))) = 0
   \<and> error (handleGenerate editing_state (Inl (Thrown ''quota'')))
       = Some ''Failed to generate the image. quota''
   \<and> \<not> isLoading (handleGenerate editing_state (Inl (Thrown ''quota'')))
   \<and> \<not> isLoading (handleGenerate editing_state (Inr (File ''b.png'' ''ub'')))
   \<and> handlePlaceObject editing_state (Inl ErrorEvent)
       = editing_state\<lparr>error := Some ''Failed to place the object. An unknown error occurred.'',
           isLoading := False\<rparr>"
proof -
  have g: "handleGenerate editing_state (Inl (Thrown ''quota''))
      = editing_state\<lparr>justPlacedObject := False,
           error := Some (''Failed to generate the image. '' @ error_message (Thrown ''quota'')),
           isLoading := False\<rparr>"
    "isLoading (handleGenerate editing_state (Inr (File ''b.png'' ''ub''))) = False"
    using editing_state_ready
      C9_failure_keeps_history [of editing_state "Thrown ''quota''" None
        "Inr (File ''b.png'' ''ub'')"]
    by simp_all
  have p: "handlePlaceObject editing_state (Inl ErrorEvent)
      = editing_state\<lparr>error := Some (''Failed to place the object. '' @ error_message ErrorEvent),
           isLoading := False\<rparr>"
    using editing_state_ready
      C9_failure_keeps_history [of editing_state ErrorEvent None "Inl ErrorEvent"]
    by simp
  show ?thesis
    unfolding g p
    by (simp add: error_message_def editing_state_def initial_state_def)
qed

text \<open>
  Claim C9 as stated fails in \<open>handleGenerate\<close> after an object was placed: the failed
  call leaves \<open>justPlacedObject\<close> cleared, so more than the error message has changed.
\<close>

theorem C9_justPlacedObject_cleared:
  "justPlacedObject editing_state
   \<and> \<not> justPlacedObject (handleGenerate editing_state (Inl (Thrown ''quota'')))
   \<and> handleGenerate editing_state (Inl (Thrown ''quota''))
       \<noteq> editing_state\<lparr>error := Some ''Failed to generate the image. quota'',
            isLoading := False\<rparr>"
proof -
  have g: "handleGenerate editing_state (Inl (Thrown ''quota''))
      = editing_state\<lparr>justPlacedObject := False,
           error := Some (''Failed to generate the image. '' @ error_message (Thrown ''quota'')),
           isLoading := False\<rparr>"
    using editing_state_ready by (simp add: handleGenerate_called)
  have j: "justPlacedObject editing_state"
    by (simp add: editing_state_def)
  have d: "justPlacedObject (editing_state\<lparr>error := Some ''Failed to generate the image. quota'',
            isLoading := False\<rparr>)"
    using j by simp
  have n: "\<not> justPlacedObject (handleGenerate editing_state (Inl (Thrown ''quota'')))"
    unfolding g by simp
  from n d have "handleGenerate editing_state (Inl (Thrown ''quota''))
       \<noteq> editing_state\<lparr>error := Some ''Failed to generate the image. quota'',
            isLoading := False\<rparr>"
    by metis
  with j n show ?thesis by blast
qed

subsection \<open>The rounding of doubles\<close>

text \<open>
  \<open>binary64\<close> rounds to a nearest multiple of \<open>2 powi (e - 52)\<close>, where
  \<open>2 powi e \<le> \<bar>x\<bar> < 2 powi (e + 1)\<close>: the relative error is at most \<open>1 / 2 ^ 53\<close>,
  and a number with a significand below \<open>2 ^ 53\<close> is kept as it is.
\<close>

lemma round_half_even_error: "\<bar>of_int (round_half_even m) - m\<bar> \<le> 1 / 2"
proof -
  have "of_int \<lfloor>m\<rfloor> \<le> m" "m < of_int \<lfloor>m\<rfloor> + 1" by linarith+
  then show ?thesis
    by (auto simp: round_half_even_def Let_def)
qed

lemma round_half_even_of_int: "round_half_even (of_int n) = n"
  by (simp add: round_half_even_def)

lemma round_half_even_eqI:
  assumes "of_int n - 1 / 2 < m" "m < of_int n + 1 / 2"
  shows "round_half_even m = n"
proof -
  have e: "\<bar>of_int (round_half_even m) - m\<bar> \<le> 1 / 2" by (rule round_half_even_error)
  have "\<bar>(of_int (round_half_even m) :: rat) - of_int n\<bar> < 1"
    using e assms by linarith
  then have "\<bar>round_half_even m - n\<bar> < 1"
    by (metis of_int_diff of_int_abs of_int_less_1_iff)
  then show ?thesis by linarith
qed

lemma powi_bitlen:
  assumes "0 < p"
  shows "(2::rat) powi (bitlen p - 1) \<le> of_int p" "(of_int p :: rat) < 2 powi bitlen p"
proof -
  from bitlen_bounds [OF assms] have b: "2 ^ nat (bitlen p - 1) \<le> p" "p < 2 ^ nat (bitlen p)"
    by auto
  have pos: "0 < bitlen p"
    using b(2) assms by (cases "bitlen p \<le> 0") auto
  have "(of_int (2 ^ nat (bitlen p - 1)) :: rat) \<le> of_int p"
    using b(1) by (simp only: of_int_le_iff)
  then show "(2::rat) powi (bitlen p - 1) \<le> of_int p"
    using pos by (simp add: power_int_def)
  have "(of_int p :: rat) < of_int (2 ^ nat (bitlen p))"
    using b(2) by (simp only: of_int_less_iff)
  then show "(of_int p :: rat) < 2 powi bitlen p"
    using pos by (simp add: power_int_def)
qed

lemma binary_exponent_bounds:
  assumes "0 < x"
  shows "2 powi binary_exponent x \<le> x" "x < 2 powi (binary_exponent x + 1)"
proof -
  obtain p q where pq: "quotient_of x = (p, q)" by (cases "quotient_of x")
  then have q: "0 < q" and x: "x = of_int p / of_int q"
    by (simp_all add: quotient_of_denom_pos quotient_of_div)
  from assms x q have p: "0 < p"
    by (simp add: zero_less_divide_iff)
  let ?k = "bitlen p - bitlen q"
  have lo: "(2::rat) powi (?k - 1) < x"
  proof -
    have "(2::rat) powi (?k - 1) = 2 powi (bitlen p - 1) / 2 powi bitlen q"
      by (simp add: power_int_diff)
    also have "\<dots> \<le> of_int p / 2 powi bitlen q"
      using powi_bitlen(1) [OF p] by (simp add: divide_right_mono)
    also have "\<dots> < of_int p / of_int q"
      using powi_bitlen(2) [OF q] p q by (simp add: divide_strict_left_mono)
    finally show ?thesis by (simp add: x)
  qed
  have hi: "x < (2::rat) powi (?k + 1)"
  proof -
    have "x = of_int p / of_int q" by (rule x)
    also have "\<dots> < 2 powi bitlen p / of_int q"
      using powi_bitlen(2) [OF p] q by (simp add: divide_strict_right_mono)
    also have "\<dots> \<le> 2 powi bitlen p / 2 powi (bitlen q - 1)"
      using powi_bitlen(1) [OF q] q by (intro divide_left_mono) simp_all
    also have "\<dots> = 2 powi (?k + 1)"
      by (simp add: power_int_diff power_int_add)
    finally show ?thesis .
  qed
  have e: "binary_exponent x = (if 2 powi ?k \<le> x then ?k else ?k - 1)"
    by (simp add: binary_exponent_def pq Let_def)
  show "2 powi binary_exponent x \<le> x"
    using lo by (simp add: e)
  show "x < 2 powi (binary_exponent x + 1)"
    using hi by (auto simp: e)
qed

lemma powi_less_cancel:
  assumes "(2::rat) powi a < 2 powi b"
  shows "a < b"
proof (rule ccontr)
  assume "\<not> a < b"
  then have "(2::rat) powi b \<le> 2 powi a"
    by (intro power_int_increasing) simp_all
  with assms show False by simp
qed

lemma binary_exponent_eqI:
  assumes "2 powi k \<le> x" "x < 2 powi (k + 1)"
  shows "binary_exponent x = k"
proof -
  have pos: "0 < x"
    using assms(1) by (rule less_le_trans [rotated]) simp
  note b = binary_exponent_bounds [OF pos]
  have "(2::rat) powi k < 2 powi (binary_exponent x + 1)"
    using assms(1) b(2) by simp
  then have 1: "k < binary_exponent x + 1" by (rule powi_less_cancel)
  have "(2::rat) powi binary_exponent x < 2 powi (k + 1)"
    using assms(2) b(1) by simp
  then have 2: "binary_exponent x < k + 1" by (rule powi_less_cancel)
  from 1 2 show ?thesis by simp
qed

lemma binary64_eqI:
  assumes "2 powi k \<le> \<bar>x\<bar>" "\<bar>x\<bar> < 2 powi (k + 1)"
    "round_half_even (x / 2 powi (k - 52)) = m"
  shows "binary64 x = of_int m * 2 powi (k - 52)"
proof -
  have "x \<noteq> 0"
    using assms(1) zero_less_power_int [of "2::rat" k] by linarith
  then show ?thesis
    using binary_exponent_eqI [OF assms(1,2)] assms(3)
    by (simp add: binary64_def Let_def)
qed

lemma binary64_error: "\<bar>binary64 x - x\<bar> \<le> \<bar>x\<bar> / 2 ^ 53"
proof (cases "x = 0")
  case True
  then show ?thesis by (simp add: binary64_def)
next
  case False
  define E where "E = binary_exponent \<bar>x\<bar>"
  define u :: rat where "u = 2 powi (E - 52)"
  have u: "0 < u" by (simp add: u_def)
  have lo: "2 powi E \<le> \<bar>x\<bar>"
    unfolding E_def using False by (intro binary_exponent_bounds) simp
  have uE: "u * 2 ^ 52 = 2 powi E"
    by (simp add: u_def power_int_diff)
  have f: "binary64 x = of_int (round_half_even (x / u)) * u"
    using False by (simp add: binary64_def Let_def E_def u_def)
  have "\<bar>binary64 x - x\<bar> = \<bar>of_int (round_half_even (x / u)) - x / u\<bar> * u"
  proof -
    have "binary64 x - x = (of_int (round_half_even (x / u)) - x / u) * u"
      using u by (simp add: f field_simps)
    then show ?thesis using u by (simp add: abs_mult)
  qed
  also have "\<dots> \<le> 1 / 2 * u"
    using round_half_even_error [of "x / u"] u by (intro mult_right_mono) simp_all
  also have "\<dots> = 2 powi E / 2 ^ 53"
    using uE by simp
  also have "\<dots> \<le> \<bar>x\<bar> / 2 ^ 53"
    using lo by (simp add: divide_right_mono)
  finally show ?thesis .
qed

lemma binary64_exact:
  assumes "x = of_int m * 2 powi e" "\<bar>m\<bar> < 2 ^ 53"
  shows "binary64 x = x"
proof (cases "x = 0")
  case True
  then show ?thesis by (simp add: binary64_def)
next
  case False
  define E where "E = binary_exponent \<bar>x\<bar>"
  have lo: "2 powi E \<le> \<bar>x\<bar>"
    unfolding E_def using False by (intro binary_exponent_bounds) simp
  have "\<bar>x\<bar> = of_int \<bar>m\<bar> * 2 powi e"
    by (simp add: assms(1) abs_mult)
  also have "\<dots> < of_int (2 ^ 53) * 2 powi e"
    using assms(2) by (intro mult_strict_right_mono) (simp_all only: of_int_less_iff zero_less_power_int zero_less_numeral)
  also have "\<dots> = 2 powi (53 + e)"
    by (simp add: power_int_add)
  finally have "(2::rat) powi E < 2 powi (53 + e)"
    using lo by simp
  then have "E < 53 + e" by (rule powi_less_cancel)
  then have "0 \<le> e - (E - 52)" by simp
  then obtain n :: nat where n: "e - (E - 52) = int n"
    using zero_le_imp_eq_int by blast
  have "x / 2 powi (E - 52) = of_int m * 2 powi (e - (E - 52))"
    by (simp add: assms(1) power_int_diff)
  also have "\<dots> = of_int (m * 2 ^ n)"
    by (simp add: n)
  finally have q: "x / 2 powi (E - 52) = of_int (m * 2 ^ n)" .
  have "binary64 x = of_int (m * 2 ^ n) * 2 powi (E - 52)"
    using False by (simp add: binary64_def Let_def E_def [symmetric] q round_half_even_of_int del: of_int_mult of_int_power)
  also have "\<dots> = x"
    using q by (simp add: field_simps)
  finally show ?thesis .
qed

lemma binary64_of_nat: "n < 2 ^ 53 \<Longrightarrow> binary64 (of_nat n) = of_nat n"
  using binary64_exact [of "of_nat n" "int n" 0] by simp

lemma binary64_half: "\<bar>m\<bar> < 2 ^ 53 \<Longrightarrow> binary64 (of_int m / 2) = of_int m / 2"
  using binary64_exact [of "of_int m / 2" m "-1"] by simp

lemma binary64_scaled:
  assumes "0 \<le> t" "0 < s"
  shows "\<bar>binary64 (s * binary64 (t / s)) - t\<bar> \<le> t / 2 ^ 51"
proof -
  define q where "q = binary64 (t / s)"
  have 1: "\<bar>q - t / s\<bar> \<le> t / s / 2 ^ 53"
    using binary64_error [of "t / s"] assms by (simp add: q_def)
  have "\<bar>s * q - t\<bar> = s * \<bar>q - t / s\<bar>"
  proof -
    have "s * q - t = s * (q - t / s)" using assms(2) by (simp add: field_simps)
    then show ?thesis using assms(2) by (simp add: abs_mult)
  qed
  also have "\<dots> \<le> s * (t / s / 2 ^ 53)"
    using 1 assms(2) by (intro mult_left_mono) simp_all
  also have "\<dots> = t / 2 ^ 53"
    using assms(2) by simp
  finally have 2: "\<bar>s * q - t\<bar> \<le> t / 2 ^ 53" .
  then have 3: "\<bar>s * q\<bar> \<le> t + t / 2 ^ 53"
    using assms(1) by linarith
  have "\<bar>binary64 (s * q) - s * q\<bar> \<le> \<bar>s * q\<bar> / 2 ^ 53"
    by (rule binary64_error)
  also have "\<dots> \<le> (t + t / 2 ^ 53) / 2 ^ 53"
    using 3 by (simp add: divide_right_mono)
  finally have 4: "\<bar>binary64 (s * q) - s * q\<bar> \<le> (t + t / 2 ^ 53) / 2 ^ 53" .
  have 5: "t / 2 ^ 53 + (t + t / 2 ^ 53) / 2 ^ 53 \<le> t / 2 ^ 51"
    using assms(1) by (simp add: field_simps)
  have "\<bar>binary64 (s * q) - t\<bar> \<le> \<bar>binary64 (s * q) - s * q\<bar> + \<bar>s * q - t\<bar>"
    by linarith
  with 2 4 5 show ?thesis
    unfolding q_def by linarith
qed

lemma binary64_0: "binary64 0 = 0"
  by (simp add: binary64_def)

lemma binary64_1: "binary64 1 = 1"
  using binary64_of_nat [of 1] by simp

lemma crop64_offset:
  assumes "a \<le> s" "0 < s" "s < 2 ^ 53"
  shows "\<bar>binary64 (of_nat s * binary64 (binary64 (binary64 (of_nat s - of_nat a) / 2) / of_nat s))
            - (of_nat s - of_nat a) / 2\<bar> \<le> (of_nat s - of_nat a) / 2 / 2 ^ 51"
    and "a = s \<Longrightarrow>
          binary64 (of_nat s * binary64 (binary64 (binary64 (of_nat s - of_nat a) / 2) / of_nat s)) = 0"
proof -
  have d: "(of_nat s - of_nat a :: rat) = of_nat (s - a)"
    using assms(1) by (simp add: of_nat_diff)
  have e1: "binary64 (of_nat s - of_nat a) = of_nat s - of_nat a"
    unfolding d using assms(3) by (intro binary64_of_nat) simp
  have e2: "binary64 ((of_nat s - of_nat a) / 2) = (of_nat s - of_nat a) / 2"
    unfolding d using binary64_half [of "int (s - a)"] assms(3) by simp
  show "\<bar>binary64 (of_nat s * binary64 (binary64 (binary64 (of_nat s - of_nat a) / 2) / of_nat s))
            - (of_nat s - of_nat a) / 2\<bar> \<le> (of_nat s - of_nat a) / 2 / 2 ^ 51"
    unfolding e1 e2 using assms(1,2) by (intro binary64_scaled) simp_all
  show "binary64 (of_nat s * binary64 (binary64 (binary64 (of_nat s - of_nat a) / 2) / of_nat s)) = 0"
    if "a = s"
    using that by (simp add: binary64_0)
qed

lemma crop64_extent:
  assumes "0 < s" "s < 2 ^ 53"
  shows "\<bar>binary64 (of_nat s * binary64 (of_nat a / of_nat s)) - of_nat a\<bar> \<le> of_nat a / 2 ^ 51"
    and "a = s \<Longrightarrow> binary64 (of_nat s * binary64 (of_nat a / of_nat s)) = of_nat a"
proof -
  show "\<bar>binary64 (of_nat s * binary64 (of_nat a / of_nat s)) - of_nat a\<bar> \<le> of_nat a / 2 ^ 51"
    using assms(1) by (intro binary64_scaled) simp_all
  show "binary64 (of_nat s * binary64 (of_nat a / of_nat s)) = of_nat a" if "a = s"
    using that assms by (simp add: binary64_1 binary64_of_nat)
qed

subsection \<open>The geometry of padding, cropping and marking\<close>

lemma sample_geometry:
  "naturalWidth sample_image = 4" "naturalHeight sample_image = 2"
  "square_side 4 2 = 4" "pad_offset_x 4 2 = 0" "pad_offset_y 4 2 = 1"
  by (simp_all add: sample_image_def square_side_def pad_offset_x_def pad_offset_y_def)

lemma pad_offset_bounds:
  "0 \<le> pad_offset_x w h" "pad_offset_x w h + of_nat w \<le> of_nat (square_side w h)"
  "0 \<le> pad_offset_y w h" "pad_offset_y w h + of_nat h \<le> of_nat (square_side w h)"
  "pad_offset_x w h = of_nat (square_side w h) - (pad_offset_x w h + of_nat w)"
  "pad_offset_y w h = of_nat (square_side w h) - (pad_offset_y w h + of_nat h)"
  by (simp_all add: pad_offset_x_def pad_offset_y_def square_side_def field_simps)

lemma padImageToSquare_canvas_eq:
  "padImageToSquare_canvas img =
     \<lparr>width = square_side (naturalWidth img) (naturalHeight img),
      height = square_side (naturalWidth img) (naturalHeight img),
      ops = [FillRect ''black'' 0 0
               (of_nat (square_side (naturalWidth img) (naturalHeight img)))
               (of_nat (square_side (naturalWidth img) (naturalHeight img))),
             DrawImage img 0 0 (of_nat (naturalWidth img)) (of_nat (naturalHeight img))
               (pad_offset_x (naturalWidth img) (naturalHeight img))
               (pad_offset_y (naturalWidth img) (naturalHeight img))
               (of_nat (naturalWidth img)) (of_nat (naturalHeight img))]\<rparr>"
  by (simp add: padImageToSquare_canvas_def Let_def drawImage5_def square_side_def
      pad_offset_x_def pad_offset_y_def)

lemma render_padImageToSquare_canvas:
  "render (padImageToSquare_canvas img) px py =
     (if in_rect (pad_offset_x (naturalWidth img) (naturalHeight img))
           (pad_offset_y (naturalWidth img) (naturalHeight img))
           (of_nat (naturalWidth img)) (of_nat (naturalHeight img)) px py
      then pixel img (px - pad_offset_x (naturalWidth img) (naturalHeight img))
             (py - pad_offset_y (naturalWidth img) (naturalHeight img))
      else if in_rect 0 0 (of_nat (square_side (naturalWidth img) (naturalHeight img)))
             (of_nat (square_side (naturalWidth img) (naturalHeight img))) px py
      then ''black'' else transparent)"
proof (cases "in_rect (pad_offset_x (naturalWidth img) (naturalHeight img))
           (pad_offset_y (naturalWidth img) (naturalHeight img))
           (of_nat (naturalWidth img)) (of_nat (naturalHeight img)) px py")
  case True
  then have pos: "naturalWidth img \<noteq> 0" "naturalHeight img \<noteq> 0"
    by (auto simp: in_rect_def)
  from True have src: "in_rect 0 0 (of_nat (naturalWidth img)) (of_nat (naturalHeight img))
      (px - pad_offset_x (naturalWidth img) (naturalHeight img))
      (py - pad_offset_y (naturalWidth img) (naturalHeight img))"
    by (auto simp: in_rect_def)
  show ?thesis
    using True src pos
    by (simp add: render_def padImageToSquare_canvas_eq)
next
  case False
  then show ?thesis
    by (simp add: render_def padImageToSquare_canvas_eq)
qed

lemma padImageToSquare_resolves:
  assumes "readOk br" "url \<noteq> []" "decode br url = Some img" "contextOk br" "blobOk br"
    "0 < square_side (naturalWidth img) (naturalHeight img)"
  shows "padImageToSquare br (File name url)
      = Inr (File name (encode br (image_of_canvas (padImageToSquare_canvas img))),
             naturalWidth img, naturalHeight img)"
  using assms
  by (simp add: padImageToSquare_def toBlob_def padImageToSquare_canvas_eq)

lemma padImageToSquare_resolved:
  assumes "padImageToSquare br f = Inr (padded, ow, oh)"
  shows "\<exists>name url img. f = File name url \<and> decode br url = Some img
      \<and> padded = File name (encode br (image_of_canvas (padImageToSquare_canvas img)))
      \<and> ow = naturalWidth img \<and> oh = naturalHeight img"
  using assms
  by (cases f)
    (auto simp: padImageToSquare_def toBlob_def split: if_splits option.splits)

text \<open>
  Claim C4. For every image of width \<open>w\<close> and height \<open>h\<close>, \<open>padImageToSquare\<close> draws a
  square canvas of side \<open>S = max w h\<close>: at the offset \<open>((S - w) / 2, (S - h) / 2)\<close> the
  original image, unscaled (the point at the offset plus \<open>(i, j)\<close> has the original's
  colour at \<open>(i, j)\<close>), and black everywhere else in the square; the content lies within
  the square. Where the browser's facilities work and the square has pixels, the
  function resolves with the file exported from that canvas, \<open>originalWidth = w\<close> and
  \<open>originalHeight = h\<close>; and whenever it resolves it does so with these values.
\<close>

theorem C4_padImageToSquare:
  "width (padImageToSquare_canvas img) = square_side (naturalWidth img) (naturalHeight img)
   \<and> height (padImageToSquare_canvas img) = square_side (naturalWidth img) (naturalHeight img)
   \<and> (\<forall>px py. render (padImageToSquare_canvas img) px py =
        (if in_rect (pad_offset_x (naturalWidth img) (naturalHeight img))
              (pad_offset_y (naturalWidth img) (naturalHeight img))
              (of_nat (naturalWidth img)) (of_nat (naturalHeight img)) px py
         then pixel img (px - pad_offset_x (naturalWidth img) (naturalHeight img))
                (py - pad_offset_y (naturalWidth img) (naturalHeight img))
         else if in_rect 0 0 (of_nat (square_side (naturalWidth img) (naturalHeight img)))
                (of_nat (square_side (naturalWidth img) (naturalHeight img))) px py
         then ''black'' else transparent))
   \<and> 0 \<le> pad_offset_x (naturalWidth img) (naturalHeight img)
   \<and> pad_offset_x (naturalWidth img) (naturalHeight img) + of_nat (naturalWidth img)
       \<le> of_nat (square_side (naturalWidth img) (naturalHeight img))
   \<and> 0 \<le> pad_offset_y (naturalWidth img) (naturalHeight img)
   \<and> pad_offset_y (naturalWidth img) (naturalHeight img) + of_nat (naturalHeight img)
       \<le> of_nat (square_side (naturalWidth img) (naturalHeight img))
   \<and> (readOk br \<and> url \<noteq> [] \<and> decode br url = Some img \<and> contextOk br \<and> blobOk br
        \<and> 0 < square_side (naturalWidth img) (naturalHeight img) \<longrightarrow>
        padImageToSquare br (File name url)
          = Inr (File name (encode br (image_of_canvas (padImageToSquare_canvas img))),
                 naturalWidth img, naturalHeight img))
   \<and> (\<forall>padded ow oh. padImageToSquare br f = Inr (padded, ow, oh) \<longrightarrow>
        (\<exists>name url img'. f = File name url \<and> decode br url = Some img'
           \<and> padded = File name (encode br (image_of_canvas (padImageToSquare_canvas img')))
           \<and> ow = naturalWidth img' \<and> oh = naturalHeight img'))"
proof -
  have "width (padImageToSquare_canvas img)
        = square_side (naturalWidth img) (naturalHeight img)"
    and "height (padImageToSquare_canvas img)
        = square_side (naturalWidth img) (naturalHeight img)"
    by (simp_all add: padImageToSquare_canvas_eq)
  moreover have "\<forall>px py. render (padImageToSquare_canvas img) px py =
        (if in_rect (pad_offset_x (naturalWidth img) (naturalHeight img))
              (pad_offset_y (naturalWidth img) (naturalHeight img))
              (of_nat (naturalWidth img)) (of_nat (naturalHeight img)) px py
         then pixel img (px - pad_offset_x (naturalWidth img) (naturalHeight img))
                (py - pad_offset_y (naturalWidth img) (naturalHeight img))
         else if in_rect 0 0 (of_nat (square_side (naturalWidth img) (naturalHeight img)))
                (of_nat (square_side (naturalWidth img) (naturalHeight img))) px py
         then ''black'' else transparent)"
    by (intro allI) (rule render_padImageToSquare_canvas)
  moreover have "readOk br \<and> url \<noteq> [] \<and> decode br url = Some img \<and> contextOk br \<and> blobOk br
        \<and> 0 < square_side (naturalWidth img) (naturalHeight img) \<longrightarrow>
        padImageToSquare br (File name url)
          = Inr (File name (encode br (image_of_canvas (padImageToSquare_canvas img))),
                 naturalWidth img, naturalHeight img)"
    using padImageToSquare_resolves [of br url img name] by blast
  moreover have "\<forall>padded ow oh. padImageToSquare br f = Inr (padded, ow, oh) \<longrightarrow>
        (\<exists>name url img'. f = File name url \<and> decode br url = Some img'
           \<and> padded = File name (encode br (image_of_canvas (padImageToSquare_canvas img')))
           \<and> ow = naturalWidth img' \<and> oh = naturalHeight img')"
    using padImageToSquare_resolved [of br f] by blast
  ultimately show ?thesis
    using pad_offset_bounds(1-4) [of "naturalWidth img" "naturalHeight img"]
    by (intro conjI) assumption+
qed

text \<open>
  Claim C4 at the 4 by 2 sample image: the square has side 4 and the content starts one
  row down.
\<close>

theorem C4_padImageToSquare_witness:
  "width (padImageToSquare_canvas sample_image) = 4
   \<and> height (padImageToSquare_canvas sample_image) = 4
   \<and> render (padImageToSquare_canvas sample_image) 1 (3 / 2) = ''red''
   \<and> render (padImageToSquare_canvas sample_image) 3 (3 / 2) = ''blue''
   \<and> render (padImageToSquare_canvas sample_image) 1 (1 / 2) = ''black''
   \<and> padImageToSquare sample_browser (File ''p.png'' ''photo'')
       = Inr (File ''p.png'' ''padded'', 4, 2)"
proof -
  note c4 = C4_padImageToSquare [of sample_image sample_browser "''photo''" "''p.png''"
      "File ''p.png'' ''photo''"]
  note dims = c4 [THEN conjunct1] c4 [THEN conjunct2, THEN conjunct1]
  note rend = c4 [THEN conjunct2, THEN conjunct2, THEN conjunct1, rule_format]
  note resolves = c4 [THEN conjunct2, THEN conjunct2, THEN conjunct2, THEN conjunct2,
      THEN conjunct2, THEN conjunct2, THEN conjunct2, THEN conjunct1, rule_format]
  have d: "width (padImageToSquare_canvas sample_image) = 4"
    "height (padImageToSquare_canvas sample_image) = 4"
    using dims by (simp_all add: sample_geometry)
  have enc: "encode sample_browser (image_of_canvas (padImageToSquare_canvas sample_image))
      = ''padded''"
    using d by (simp add: sample_browser_def image_of_canvas_def)
  have env: "readOk sample_browser \<and> ''photo'' \<noteq> []
      \<and> decode sample_browser ''photo'' = Some sample_image \<and> contextOk sample_browser
      \<and> blobOk sample_browser
      \<and> 0 < square_side (naturalWidth sample_image) (naturalHeight sample_image)"
    by (simp add: sample_browser_def sample_geometry)
  have r: "render (padImageToSquare_canvas sample_image) 1 (3 / 2) = ''red''"
    "render (padImageToSquare_canvas sample_image) 3 (3 / 2) = ''blue''"
    "render (padImageToSquare_canvas sample_image) 1 (1 / 2) = ''black''"
    unfolding rend by (simp_all add: sample_geometry in_rect_def) (simp_all add: sample_image_def)
  have p: "padImageToSquare sample_browser (File ''p.png'' ''photo'')
       = Inr (File ''p.png'' ''padded'', 4, 2)"
    using resolves [OF env] by (simp add: enc sample_geometry)
  show ?thesis
    using d r p by simp
qed








lemma cropSquareToOriginal_canvas64_size:
  "width (cropSquareToOriginal_canvas64 img w h) = w"
  "height (cropSquareToOriginal_canvas64 img w h) = h"
  by (simp_all add: cropSquareToOriginal_canvas64_def Let_def)

lemma cropSquareToOriginal_canvas64_ops:
  assumes "0 < w" "0 < h" "w < 2 ^ 53" "h < 2 ^ 53" "naturalWidth sq = square_side w h"
  shows "\<exists>sx sy sw sh.
      ops (cropSquareToOriginal_canvas64 sq w h)
        = [DrawImage sq sx sy sw sh 0 0 (of_nat w) (of_nat h)]
      \<and> \<bar>sx - pad_offset_x w h\<bar> \<le> pad_offset_x w h / 2 ^ 51
      \<and> \<bar>sy - pad_offset_y w h\<bar> \<le> pad_offset_y w h / 2 ^ 51
      \<and> \<bar>sw - of_nat w\<bar> \<le> of_nat w / 2 ^ 51
      \<and> \<bar>sh - of_nat h\<bar> \<le> of_nat h / 2 ^ 51
      \<and> (h \<le> w \<longrightarrow> sx = pad_offset_x w h \<and> sw = of_nat w)
      \<and> (w \<le> h \<longrightarrow> sy = pad_offset_y w h \<and> sh = of_nat h)"
proof -
  define s where "s = square_side w h"
  define sx where "sx = binary64 (of_nat s
      * binary64 (binary64 (binary64 (of_nat s - of_nat w) / 2) / of_nat s))"
  define sy where "sy = binary64 (of_nat s
      * binary64 (binary64 (binary64 (of_nat s - of_nat h) / 2) / of_nat s))"
  define sw where "sw = binary64 (of_nat s * binary64 (of_nat w / of_nat s))"
  define sh where "sh = binary64 (of_nat s * binary64 (of_nat h / of_nat s))"
  have s: "0 < s" "s < 2 ^ 53" "w \<le> s" "h \<le> s" "(of_nat s :: rat) \<noteq> 0"
    using assms(1-4) by (simp_all add: s_def square_side_def)
  have ws: "w = s" if "h \<le> w" using that by (simp add: s_def square_side_def)
  have hs: "h = s" if "w \<le> h" using that by (simp add: s_def square_side_def)
  have px: "pad_offset_x w h = (of_nat s - of_nat w) / 2"
    and py: "pad_offset_y w h = (of_nat s - of_nat h) / 2"
    by (simp_all add: pad_offset_x_def pad_offset_y_def s_def)
  have o: "ops (cropSquareToOriginal_canvas64 sq w h)
        = [DrawImage sq sx sy sw sh 0 0 (of_nat w) (of_nat h)]"
    using s(5)
    by (simp add: cropSquareToOriginal_canvas64_def Let_def assms(5) square_side_def
        sx_def sy_def sw_def sh_def s_def)
  have bx: "\<bar>sx - pad_offset_x w h\<bar> \<le> pad_offset_x w h / 2 ^ 51"
    unfolding px sx_def by (rule crop64_offset(1) [OF s(3) s(1) s(2)])
  have by': "\<bar>sy - pad_offset_y w h\<bar> \<le> pad_offset_y w h / 2 ^ 51"
    unfolding py sy_def by (rule crop64_offset(1) [OF s(4) s(1) s(2)])
  have bw: "\<bar>sw - of_nat w\<bar> \<le> of_nat w / 2 ^ 51"
    unfolding sw_def by (rule crop64_extent(1) [OF s(1) s(2)])
  have bh: "\<bar>sh - of_nat h\<bar> \<le> of_nat h / 2 ^ 51"
    unfolding sh_def by (rule crop64_extent(1) [OF s(1) s(2)])
  have ex: "sx = pad_offset_x w h \<and> sw = of_nat w" if "h \<le> w"
  proof
    show "sx = pad_offset_x w h"
      unfolding px sx_def using crop64_offset(2) [OF s(3) s(1) s(2) ws [OF that]]
      by (simp add: ws [OF that])
    show "sw = of_nat w"
      unfolding sw_def by (rule crop64_extent(2) [OF s(1) s(2) ws [OF that]])
  qed
  have ey: "sy = pad_offset_y w h \<and> sh = of_nat h" if "w \<le> h"
  proof
    show "sy = pad_offset_y w h"
      unfolding py sy_def using crop64_offset(2) [OF s(4) s(1) s(2) hs [OF that]]
      by (simp add: hs [OF that])
    show "sh = of_nat h"
      unfolding sh_def by (rule crop64_extent(2) [OF s(1) s(2) hs [OF that]])
  qed
  from o bx by' bw bh ex ey show ?thesis by blast
qed

lemma cropSquareToOriginal64_resolves:
  assumes "decode br url = Some img" "contextOk br"
  shows "cropSquareToOriginal64 br (Some url) w h
      = Inr (encode br (image_of_canvas (cropSquareToOriginal_canvas64 img w h)))"
  using assms by (simp add: cropSquareToOriginal64_def)

text \<open>
  Claim C1, amended. Round trip: for every image of positive width \<open>w\<close> and height \<open>h\<close>
  (below \<open>2 ^ 53\<close>) that the browser decodes, \<open>padImageToSquare\<close> resolves with the file
  exported from the padded canvas, of side \<open>S = max w h\<close>, in which the content was drawn
  at \<open>((S - w) / 2, (S - h) / 2, w, h)\<close>, and with \<open>w\<close> and \<open>h\<close>; where that file decodes
  to a square \<open>sq\<close> of the same side, \<open>cropSquareToOriginal\<close>, computing in doubles on
  that file with the recorded \<open>w\<close> and \<open>h\<close>, resolves with the export of a canvas of
  exactly \<open>w\<close> by \<open>h\<close>, onto which one source rectangle of \<open>sq\<close> is drawn. Each
  coordinate of that rectangle is within a relative error of \<open>1 / 2 ^ 51\<close> of the
  rectangle in which the pad drew the content, and equal to it along every axis on which
  the original dimension is \<open>S\<close> (so the two rectangles are equal for a square image).
  Nothing is said of the colours of the result: they are the browser's resampling of
  that rectangle.
\<close>

theorem C1_pad_then_crop_roundtrip:
  "readOk br \<and> url \<noteq> [] \<and> decode br url = Some img \<and> contextOk br \<and> blobOk br
     \<and> 0 < naturalWidth img \<and> naturalWidth img < 2 ^ 53
     \<and> 0 < naturalHeight img \<and> naturalHeight img < 2 ^ 53
     \<and> decode br (encode br (image_of_canvas (padImageToSquare_canvas img))) = Some sq
     \<and> naturalWidth sq = square_side (naturalWidth img) (naturalHeight img) \<longrightarrow>
   padImageToSquare br (File name url)
     = Inr (File name (encode br (image_of_canvas (padImageToSquare_canvas img))),
            naturalWidth img, naturalHeight img)
   \<and> ops (padImageToSquare_canvas img)
     = [FillRect ''black'' 0 0
          (of_nat (square_side (naturalWidth img) (naturalHeight img)))
          (of_nat (square_side (naturalWidth img) (naturalHeight img))),
        DrawImage img 0 0 (of_nat (naturalWidth img)) (of_nat (naturalHeight img))
          (pad_offset_x (naturalWidth img) (naturalHeight img))
          (pad_offset_y (naturalWidth img) (naturalHeight img))
          (of_nat (naturalWidth img)) (of_nat (naturalHeight img))]
   \<and> cropSquareToOriginal64 br
        (Some (encode br (image_of_canvas (padImageToSquare_canvas img))))
        (naturalWidth img) (naturalHeight img)
     = Inr (encode br (image_of_canvas
         (cropSquareToOriginal_canvas64 sq (naturalWidth img) (naturalHeight img))))
   \<and> naturalWidth (image_of_canvas
         (cropSquareToOriginal_canvas64 sq (naturalWidth img) (naturalHeight img)))
     = naturalWidth img
   \<and> naturalHeight (image_of_canvas
         (cropSquareToOriginal_canvas64 sq (naturalWidth img) (naturalHeight img)))
     = naturalHeight img
   \<and> (\<exists>sx sy sw sh.
        ops (cropSquareToOriginal_canvas64 sq (naturalWidth img) (naturalHeight img))
          = [DrawImage sq sx sy sw sh 0 0 (of_nat (naturalWidth img)) (of_nat (naturalHeight img))]
        \<and> \<bar>sx - pad_offset_x (naturalWidth img) (naturalHeight img)\<bar>
            \<le> pad_offset_x (naturalWidth img) (naturalHeight img) / 2 ^ 51
        \<and> \<bar>sy - pad_offset_y (naturalWidth img) (naturalHeight img)\<bar>
            \<le> pad_offset_y (naturalWidth img) (naturalHeight img) / 2 ^ 51
        \<and> \<bar>sw - of_nat (naturalWidth img)\<bar> \<le> of_nat (naturalWidth img) / 2 ^ 51
        \<and> \<bar>sh - of_nat (naturalHeight img)\<bar> \<le> of_nat (naturalHeight img) / 2 ^ 51
        \<and> (naturalHeight img \<le> naturalWidth img \<longrightarrow>
             sx = pad_offset_x (naturalWidth img) (naturalHeight img)
             \<and> sw = of_nat (naturalWidth img))
        \<and> (naturalWidth img \<le> naturalHeight img \<longrightarrow>
             sy = pad_offset_y (naturalWidth img) (naturalHeight img)
             \<and> sh = of_nat (naturalHeight img)))"
proof (intro impI, elim conjE)
  assume a: "readOk br" "url \<noteq> []" "decode br url = Some img" "contextOk br" "blobOk br"
    "0 < naturalWidth img" "naturalWidth img < 2 ^ 53"
    "0 < naturalHeight img" "naturalHeight img < 2 ^ 53"
    "decode br (encode br (image_of_canvas (padImageToSquare_canvas img))) = Some sq"
    "naturalWidth sq = square_side (naturalWidth img) (naturalHeight img)"
  have S: "0 < square_side (naturalWidth img) (naturalHeight img)"
    using a(6) by (simp add: square_side_def)
  note pad = padImageToSquare_resolves [OF a(1) a(2) a(3) a(4) a(5) S, of name]
  note drawn = padImageToSquare_canvas_eq [of img, THEN arg_cong, of ops]
  note crop = cropSquareToOriginal64_resolves [OF a(10) a(4), of "naturalWidth img" "naturalHeight img"]
  note size = cropSquareToOriginal_canvas64_size [of sq "naturalWidth img" "naturalHeight img"]
  note rect = cropSquareToOriginal_canvas64_ops [OF a(6) a(8) a(7) a(9) a(11)]
  show "padImageToSquare br (File name url)
     = Inr (File name (encode br (image_of_canvas (padImageToSquare_canvas img))),
            naturalWidth img, naturalHeight img)
   \<and> ops (padImageToSquare_canvas img)
     = [FillRect ''black'' 0 0
          (of_nat (square_side (naturalWidth img) (naturalHeight img)))
          (of_nat (square_side (naturalWidth img) (naturalHeight img))),
        DrawImage img 0 0 (of_nat (naturalWidth img)) (of_nat (naturalHeight img))
          (pad_offset_x (naturalWidth img) (naturalHeight img))
          (pad_offset_y (naturalWidth img) (naturalHeight img))
          (of_nat (naturalWidth img)) (of_nat (naturalHeight img))]
   \<and> cropSquareToOriginal64 br
        (Some (encode br (image_of_canvas (padImageToSquare_canvas img))))
        (naturalWidth img) (naturalHeight img)
     = Inr (encode br (image_of_canvas
         (cropSquareToOriginal_canvas64 sq (naturalWidth img) (naturalHeight img))))
   \<and> naturalWidth (image_of_canvas
         (cropSquareToOriginal_canvas64 sq (naturalWidth img) (naturalHeight img)))
     = naturalWidth img
   \<and> naturalHeight (image_of_canvas
         (cropSquareToOriginal_canvas64 sq (naturalWidth img) (naturalHeight img)))
     = naturalHeight img
   \<and> (\<exists>sx sy sw sh.
        ops (cropSquareToOriginal_canvas64 sq (naturalWidth img) (naturalHeight img))
          = [DrawImage sq sx sy sw sh 0 0 (of_nat (naturalWidth img)) (of_nat (naturalHeight img))]
        \<and> \<bar>sx - pad_offset_x (naturalWidth img) (naturalHeight img)\<bar>
            \<le> pad_offset_x (naturalWidth img) (naturalHeight img) / 2 ^ 51
        \<and> \<bar>sy - pad_offset_y (naturalWidth img) (naturalHeight img)\<bar>
            \<le> pad_offset_y (naturalWidth img) (naturalHeight img) / 2 ^ 51
        \<and> \<bar>sw - of_nat (naturalWidth img)\<bar> \<le> of_nat (naturalWidth img) / 2 ^ 51
        \<and> \<bar>sh - of_nat (naturalHeight img)\<bar> \<le> of_nat (naturalHeight img) / 2 ^ 51
        \<and> (naturalHeight img \<le> naturalWidth img \<longrightarrow>
             sx = pad_offset_x (naturalWidth img) (naturalHeight img)
             \<and> sw = of_nat (naturalWidth img))
        \<and> (naturalWidth img \<le> naturalHeight img \<longrightarrow>
             sy = pad_offset_y (naturalWidth img) (naturalHeight img)
             \<and> sh = of_nat (naturalHeight img)))"
    using pad drawn crop rect
    by (intro conjI) (simp_all only: image_of_canvas_def image.simps size canvas.simps)
qed

lemma screenshot_geometry:
  "naturalWidth screenshot = 1170" "naturalHeight screenshot = 2532"
  "square_side 1170 2532 = 2532" "pad_offset_x 1170 2532 = 681" "pad_offset_y 1170 2532 = 0"
  by (simp_all add: screenshot_def square_side_def pad_offset_x_def pad_offset_y_def)

text \<open>
  Claim C1 at the 1170 by 2532 screenshot: the pad resolves with the square of side 2532,
  the crop of that square with an image of 1170 by 2532, drawn from a rectangle whose
  left edge is within \<open>681 / 2 ^ 51\<close> of 681 and whose top and height are exact. At
  the 4 by 2 sample image the left edge and the width are exact.
\<close>

theorem C1_pad_then_crop_roundtrip_witness:
  "padImageToSquare screenshot_browser (File ''shot.png'' ''shot'')
     = Inr (File ''shot.png'' ''square'', 1170, 2532)
   \<and> cropSquareToOriginal64 screenshot_browser (Some ''square'') 1170 2532 = Inr ''cropped''
   \<and> (\<exists>sx sw. ops (cropSquareToOriginal_canvas64
                  (image_of_canvas (padImageToSquare_canvas screenshot)) 1170 2532)
          = [DrawImage (image_of_canvas (padImageToSquare_canvas screenshot))
               sx 0 sw 2532 0 0 1170 2532]
        \<and> \<bar>sx - 681\<bar> \<le> 681 / 2 ^ 51 \<and> \<bar>sw - 1170\<bar> \<le> 1170 / 2 ^ 51)
   \<and> padImageToSquare sample_browser (File ''p.png'' ''photo'')
     = Inr (File ''p.png'' ''padded'', 4, 2)
   \<and> (\<exists>sy sh. ops (cropSquareToOriginal_canvas64
                  (image_of_canvas (padImageToSquare_canvas sample_image)) 4 2)
          = [DrawImage (image_of_canvas (padImageToSquare_canvas sample_image))
               0 sy 4 sh 0 0 4 2]
        \<and> \<bar>sy - 1\<bar> \<le> 1 / 2 ^ 51 \<and> \<bar>sh - 2\<bar> \<le> 2 / 2 ^ 51)"
proof -
  let ?sq = "image_of_canvas (padImageToSquare_canvas screenshot)"
  have sq: "naturalWidth ?sq = 2532" "naturalHeight ?sq = 2532"
    by (simp_all add: image_of_canvas_def padImageToSquare_canvas_def Let_def screenshot_def)
  have enc: "encode screenshot_browser ?sq = ''square''"
    by (simp add: screenshot_browser_def sq)
  have hyp: "readOk screenshot_browser \<and> ''shot'' \<noteq> []
     \<and> decode screenshot_browser ''shot'' = Some screenshot
     \<and> contextOk screenshot_browser \<and> blobOk screenshot_browser
     \<and> 0 < naturalWidth screenshot \<and> naturalWidth screenshot < 2 ^ 53
     \<and> 0 < naturalHeight screenshot \<and> naturalHeight screenshot < 2 ^ 53
     \<and> decode screenshot_browser (encode screenshot_browser ?sq) = Some ?sq
     \<and> naturalWidth ?sq = square_side (naturalWidth screenshot) (naturalHeight screenshot)"
    unfolding enc by (simp add: screenshot_browser_def screenshot_geometry sq)
  note c1 = C1_pad_then_crop_roundtrip [of screenshot_browser "''shot''" screenshot ?sq
      "''shot.png''", rule_format, OF hyp]
  note pad = c1 [THEN conjunct1]
  note crop = c1 [THEN conjunct2, THEN conjunct2, THEN conjunct1]
  note w = c1 [THEN conjunct2, THEN conjunct2, THEN conjunct2, THEN conjunct1]
  note h = c1 [THEN conjunct2, THEN conjunct2, THEN conjunct2, THEN conjunct2, THEN conjunct1]
  note rect = c1 [THEN conjunct2, THEN conjunct2, THEN conjunct2, THEN conjunct2, THEN conjunct2]
  have p: "padImageToSquare screenshot_browser (File ''shot.png'' ''shot'')
     = Inr (File ''shot.png'' ''square'', 1170, 2532)"
    using pad by (simp add: enc screenshot_geometry)
  have e2: "encode screenshot_browser (image_of_canvas (cropSquareToOriginal_canvas64 ?sq
      (naturalWidth screenshot) (naturalHeight screenshot))) = ''cropped''"
    using w h by (simp add: screenshot_browser_def screenshot_geometry)
  have c: "cropSquareToOriginal64 screenshot_browser (Some ''square'') 1170 2532 = Inr ''cropped''"
    using crop [unfolded enc e2] by (simp only: screenshot_geometry)
  have r: "\<exists>sx sw. ops (cropSquareToOriginal_canvas64 ?sq 1170 2532)
          = [DrawImage ?sq sx 0 sw 2532 0 0 1170 2532]
        \<and> \<bar>sx - 681\<bar> \<le> 681 / 2 ^ 51 \<and> \<bar>sw - 1170\<bar> \<le> 1170 / 2 ^ 51"
    using rect by (simp add: screenshot_geometry)
  let ?sp = "image_of_canvas (padImageToSquare_canvas sample_image)"
  have sp: "naturalWidth ?sp = 4" "naturalHeight ?sp = 4"
    by (simp_all add: image_of_canvas_def padImageToSquare_canvas_def Let_def sample_image_def)
  have encp: "encode sample_browser ?sp = ''padded''"
    by (simp add: sample_browser_def sp)
  have hypp: "readOk sample_browser \<and> ''photo'' \<noteq> []
     \<and> decode sample_browser ''photo'' = Some sample_image
     \<and> contextOk sample_browser \<and> blobOk sample_browser
     \<and> 0 < naturalWidth sample_image \<and> naturalWidth sample_image < 2 ^ 53
     \<and> 0 < naturalHeight sample_image \<and> naturalHeight sample_image < 2 ^ 53
     \<and> decode sample_browser (encode sample_browser ?sp) = Some ?sp
     \<and> naturalWidth ?sp = square_side (naturalWidth sample_image) (naturalHeight sample_image)"
    unfolding encp by (simp add: sample_browser_def sample_geometry sp)
  note c1p = C1_pad_then_crop_roundtrip [of sample_browser "''photo''" sample_image ?sp
      "''p.png''", rule_format, OF hypp]
  note padp = c1p [THEN conjunct1]
  note rectp = c1p [THEN conjunct2, THEN conjunct2, THEN conjunct2, THEN conjunct2,
      THEN conjunct2]
  have pp: "padImageToSquare sample_browser (File ''p.png'' ''photo'')
     = Inr (File ''p.png'' ''padded'', 4, 2)"
    using padp by (simp add: encp sample_geometry)
  have rp: "\<exists>sy sh. ops (cropSquareToOriginal_canvas64 ?sp 4 2)
          = [DrawImage ?sp 0 sy 4 sh 0 0 4 2]
        \<and> \<bar>sy - 1\<bar> \<le> 1 / 2 ^ 51 \<and> \<bar>sh - 2\<bar> \<le> 2 / 2 ^ 51"
    using rectp by (simp add: sample_geometry)
  show ?thesis
    using p c r pp rp by (intro conjI)
qed

lemma binary64_ratio_x: "binary64 (681 / 2532) = 1211276203096093 / 4503599627370496"
proof -
  have r: "round_half_even ((681 / 2532) / 2 powi (- 2 - 52)) = 4845104812384372"
    by (rule round_half_even_eqI) (simp_all add: power_int_minus_divide)
  have "binary64 (681 / 2532) = of_int 4845104812384372 * 2 powi (- 2 - 52)"
    by (rule binary64_eqI [OF _ _ r]) (simp_all add: power_int_minus_divide)
  then show ?thesis by (simp add: power_int_minus_divide)
qed

lemma binary64_source_x:
  "binary64 (2532 * (1211276203096093 / 4503599627370496)) = 5990139348123647 / 8796093022208"
proof -
  have r: "round_half_even (2532 * (1211276203096093 / 4503599627370496) / 2 powi (9 - 52))
      = 5990139348123647"
    by (rule round_half_even_eqI) (simp_all add: power_int_minus_divide)
  have "binary64 (2532 * (1211276203096093 / 4503599627370496))
      = of_int 5990139348123647 * 2 powi (9 - 52)"
    by (rule binary64_eqI [OF _ _ r]) (simp_all add: power_int_minus_divide)
  then show ?thesis by (simp add: power_int_minus_divide)
qed

lemma binary64_ratio_w: "binary64 (1170 / 2532) = 8324188884713239 / 18014398509481984"
proof -
  have r: "round_half_even ((1170 / 2532) / 2 powi (- 2 - 52)) = 8324188884713239"
    by (rule round_half_even_eqI) (simp_all add: power_int_minus_divide)
  have "binary64 (1170 / 2532) = of_int 8324188884713239 * 2 powi (- 2 - 52)"
    by (rule binary64_eqI [OF _ _ r]) (simp_all add: power_int_minus_divide)
  then show ?thesis by (simp add: power_int_minus_divide)
qed

lemma binary64_source_w:
  "binary64 (2532 * (8324188884713239 / 18014398509481984)) = 1170"
proof -
  have r: "round_half_even (2532 * (8324188884713239 / 18014398509481984) / 2 powi (10 - 52))
      = 5145714417991680"
    by (rule round_half_even_eqI) (simp_all add: power_int_minus_divide)
  have "binary64 (2532 * (8324188884713239 / 18014398509481984))
      = of_int 5145714417991680 * 2 powi (10 - 52)"
    by (rule binary64_eqI [OF _ _ r]) (simp_all add: power_int_minus_divide)
  then show ?thesis by (simp add: power_int_minus_divide)
qed

lemma cropSquareToOriginal_canvas64_eq:
  assumes "0 < square_side w h"
  shows "cropSquareToOriginal_canvas64 img w h =
     \<lparr>width = w, height = h,
      ops = [DrawImage img
        (binary64 (of_nat (naturalWidth img) * binary64 (binary64
           (binary64 (of_nat (square_side w h) - of_nat w) / 2) / of_nat (square_side w h))))
        (binary64 (of_nat (naturalWidth img) * binary64 (binary64
           (binary64 (of_nat (square_side w h) - of_nat h) / 2) / of_nat (square_side w h))))
        (binary64 (of_nat (naturalWidth img) * binary64 (of_nat w / of_nat (square_side w h))))
        (binary64 (of_nat (naturalWidth img) * binary64 (of_nat h / of_nat (square_side w h))))
        0 0 (of_nat w) (of_nat h)]\<rparr>"
  using assms
  by (auto simp: cropSquareToOriginal_canvas64_def Let_def square_side_def max_def
      split: if_splits)

lemma screenshot_source:
  "binary64 (2532 * binary64 (binary64 (binary64 (2532 - 1170) / 2) / 2532))
     = 5990139348123647 / 8796093022208"
  "binary64 (2532 * binary64 (binary64 (binary64 (2532 - 2532) / 2) / 2532)) = 0"
  "binary64 (2532 * binary64 (1170 / 2532)) = 1170"
  "binary64 (2532 * binary64 (2532 / 2532)) = 2532"
proof -
  have n: "binary64 1362 = 1362" "binary64 681 = 681" "binary64 2532 = 2532"
    using binary64_of_nat [of 1362] binary64_of_nat [of 681] binary64_of_nat [of 2532]
    by simp_all
  have a: "(2532 - 1170 :: rat) = 1362" "(1362 / 2 :: rat) = 681" by simp_all
  show "binary64 (2532 * binary64 (binary64 (binary64 (2532 - 1170) / 2) / 2532))
     = 5990139348123647 / 8796093022208"
    by (simp only: a n binary64_ratio_x binary64_source_x)
  show "binary64 (2532 * binary64 (binary64 (binary64 (2532 - 2532) / 2) / 2532)) = 0"
    by (simp add: binary64_0)
  show "binary64 (2532 * binary64 (1170 / 2532)) = 1170"
    by (simp only: binary64_ratio_w binary64_source_w)
  show "binary64 (2532 * binary64 (2532 / 2532)) = 2532"
    by (simp add: binary64_1 n)
qed

text \<open>
  Claim C1 as stated fails at the 1170 by 2532 screenshot: the pad draws the content at
  \<open>x = 681\<close>, and the crop computes \<open>2532 * (681 / 2532)\<close> in doubles, which gives the
  source \<open>x = 5990139348123647 / 2 ^ 43\<close> (680.9999999999999), to the left of the
  content: the two rectangles do not coincide exactly.
\<close>

theorem C1_source_rectangle_rounded:
  "ops (padImageToSquare_canvas screenshot)
     = [FillRect ''black'' 0 0 2532 2532,
        DrawImage screenshot 0 0 1170 2532 681 0 1170 2532]
   \<and> ops (cropSquareToOriginal_canvas64
        (image_of_canvas (padImageToSquare_canvas screenshot)) 1170 2532)
     = [DrawImage (image_of_canvas (padImageToSquare_canvas screenshot))
          (5990139348123647 / 8796093022208) 0 1170 2532 0 0 1170 2532]
   \<and> (5990139348123647 / 8796093022208 :: rat) < 681"
proof -
  let ?sq = "image_of_canvas (padImageToSquare_canvas screenshot)"
  have sq: "naturalWidth ?sq = 2532"
    by (simp add: image_of_canvas_def padImageToSquare_canvas_def Let_def screenshot_def)
  have p: "ops (padImageToSquare_canvas screenshot)
     = [FillRect ''black'' 0 0 2532 2532,
        DrawImage screenshot 0 0 1170 2532 681 0 1170 2532]"
    by (simp add: padImageToSquare_canvas_def Let_def drawImage5_def screenshot_def)
  have S: "0 < square_side 1170 2532"
    by (simp add: screenshot_geometry)
  have c: "ops (cropSquareToOriginal_canvas64 ?sq 1170 2532)
     = [DrawImage ?sq (5990139348123647 / 8796093022208) 0 1170 2532 0 0 1170 2532]"
    unfolding cropSquareToOriginal_canvas64_eq [OF S]
    by (simp only: canvas.simps sq screenshot_geometry of_nat_numeral screenshot_source)
  have l: "(5990139348123647 / 8796093022208 :: rat) < 681"
    by simp
  show ?thesis
    using p c l by (intro conjI)
qed

lemma paddedHotspot_eq:
  "paddedHotspot w h spot = (fst spot + pad_offset_x w h, snd spot + pad_offset_y w h)"
  by (simp add: paddedHotspot_def Let_def pad_offset_x_def pad_offset_y_def square_side_def)

lemma drawHotspotOnImage_resolved:
  assumes "drawHotspotOnImage br f spot = Inr marked"
  shows "\<exists>name url img. f = File name url \<and> decode br url = Some img
      \<and> marked = File name (encode br (image_of_canvas (drawHotspotOnImage_canvas img spot)))"
  using assms
  by (cases f)
    (auto simp: drawHotspotOnImage_def toBlob_def split: if_splits option.splits)

lemma fileToBase64_resolved:
  "fileToBase64 br (File name url) = Inr u \<Longrightarrow> u = url"
  by (simp add: fileToBase64_def split: if_splits)

lemma drawHotspotOnImage_resolves:
  assumes "readOk br" "url \<noteq> []" "decode br url = Some img" "contextOk br" "blobOk br"
    "0 < naturalWidth img" "0 < naturalHeight img"
  shows "drawHotspotOnImage br (File name url) spot
      = Inr (File name (encode br (image_of_canvas (drawHotspotOnImage_canvas img spot))))"
  using assms
  by (simp add: drawHotspotOnImage_def toBlob_def drawHotspotOnImage_canvas_def Let_def)

lemma marked_request_resolves:
  assumes "readOk br" "url \<noteq> []" "decode br url = Some img" "contextOk br" "blobOk br"
    "0 < square_side (naturalWidth img) (naturalHeight img)"
    "encode br (image_of_canvas (padImageToSquare_canvas img)) \<noteq> []"
    "decode br (encode br (image_of_canvas (padImageToSquare_canvas img))) = Some padded"
    "0 < naturalWidth padded" "0 < naturalHeight padded"
  shows "generateEditedImage_request br (File name url) up spot
      = Inr (empty_body\<lparr>op_type := Some ''edit'',
               originalImage := Some (encode br (image_of_canvas (drawHotspotOnImage_canvas padded
                 (fst spot + pad_offset_x (naturalWidth img) (naturalHeight img),
                  snd spot + pad_offset_y (naturalWidth img) (naturalHeight img))))),
               userPrompt := Some up,
               hotspot := Some (fst spot + pad_offset_x (naturalWidth img) (naturalHeight img),
                                snd spot + pad_offset_y (naturalWidth img) (naturalHeight img))\<rparr>,
             naturalWidth img, naturalHeight img)"
    and "generatePlacedImage_request br (File name url) (File oname ourl) up spot
      = Inr (empty_body\<lparr>op_type := Some ''placement'',
               originalImage := Some (encode br (image_of_canvas (drawHotspotOnImage_canvas padded
                 (fst spot + pad_offset_x (naturalWidth img) (naturalHeight img),
                  snd spot + pad_offset_y (naturalWidth img) (naturalHeight img))))),
               objectImage := Some ourl,
               userPrompt := Some up,
               hotspot := Some (fst spot + pad_offset_x (naturalWidth img) (naturalHeight img),
                                snd spot + pad_offset_y (naturalWidth img) (naturalHeight img))\<rparr>,
             naturalWidth img, naturalHeight img)"
proof -
  note pad = padImageToSquare_resolves [OF assms(1-6), of name]
  note mark = drawHotspotOnImage_resolves [OF assms(1) assms(7) assms(8) assms(4) assms(5)
      assms(9) assms(10), of name]
  show "generateEditedImage_request br (File name url) up spot
      = Inr (empty_body\<lparr>op_type := Some ''edit'',
               originalImage := Some (encode br (image_of_canvas (drawHotspotOnImage_canvas padded
                 (fst spot + pad_offset_x (naturalWidth img) (naturalHeight img),
                  snd spot + pad_offset_y (naturalWidth img) (naturalHeight img))))),
               userPrompt := Some up,
               hotspot := Some (fst spot + pad_offset_x (naturalWidth img) (naturalHeight img),
                                snd spot + pad_offset_y (naturalWidth img) (naturalHeight img))\<rparr>,
             naturalWidth img, naturalHeight img)"
    by (simp add: generateEditedImage_request_def pad mark fileToBase64_def assms(1)
        paddedHotspot_eq)
  show "generatePlacedImage_request br (File name url) (File oname ourl) up spot
      = Inr (empty_body\<lparr>op_type := Some ''placement'',
               originalImage := Some (encode br (image_of_canvas (drawHotspotOnImage_canvas padded
                 (fst spot + pad_offset_x (naturalWidth img) (naturalHeight img),
                  snd spot + pad_offset_y (naturalWidth img) (naturalHeight img))))),
               objectImage := Some ourl,
               userPrompt := Some up,
               hotspot := Some (fst spot + pad_offset_x (naturalWidth img) (naturalHeight img),
                                snd spot + pad_offset_y (naturalWidth img) (naturalHeight img))\<rparr>,
             naturalWidth img, naturalHeight img)"
    by (simp add: generatePlacedImage_request_def pad mark fileToBase64_def assms(1)
        paddedHotspot_eq)
qed

lemma marked_image_resolved:
  assumes p: "padImageToSquare br f = Inr (paddedImage, ow, oh)"
    and d: "drawHotspotOnImage br paddedImage c = Inr imageWithHotspot"
  shows "\<exists>name url img padded. f = File name url \<and> decode br url = Some img
      \<and> ow = naturalWidth img \<and> oh = naturalHeight img
      \<and> decode br (encode br (image_of_canvas (padImageToSquare_canvas img))) = Some padded
      \<and> imageWithHotspot
          = File name (encode br (image_of_canvas (drawHotspotOnImage_canvas padded c)))"
proof -
  from padImageToSquare_resolved [OF p] obtain name url img where
    f: "f = File name url" "decode br url = Some img"
      "paddedImage = File name (encode br (image_of_canvas (padImageToSquare_canvas img)))"
      "ow = naturalWidth img" "oh = naturalHeight img"
    by blast
  from drawHotspotOnImage_resolved [OF d] f(3) obtain padded where
    m: "decode br (encode br (image_of_canvas (padImageToSquare_canvas img))) = Some padded"
      "imageWithHotspot
          = File name (encode br (image_of_canvas (drawHotspotOnImage_canvas padded c)))"
    by auto
  from f m show ?thesis by blast
qed

lemma generateEditedImage_request_marked:
  assumes "generateEditedImage_request br f up spot = Inr (b, ow, oh)"
  shows "\<exists>name url img padded. f = File name url \<and> decode br url = Some img
      \<and> ow = naturalWidth img \<and> oh = naturalHeight img
      \<and> decode br (encode br (image_of_canvas (padImageToSquare_canvas img))) = Some padded
      \<and> b = empty_body\<lparr>op_type := Some ''edit'',
            originalImage := Some (encode br (image_of_canvas (drawHotspotOnImage_canvas padded
              (fst spot + pad_offset_x ow oh, snd spot + pad_offset_y ow oh)))),
            userPrompt := Some up,
            hotspot := Some (fst spot + pad_offset_x ow oh, snd spot + pad_offset_y ow oh)\<rparr>"
proof -
  from assms obtain paddedImage where
    p: "padImageToSquare br f = Inr (paddedImage, ow, oh)"
    by (auto simp: generateEditedImage_request_def split: sum.splits prod.splits)
  with assms obtain imageWithHotspot where
    d: "drawHotspotOnImage br paddedImage (paddedHotspot ow oh spot) = Inr imageWithHotspot"
    by (auto simp: generateEditedImage_request_def split: sum.splits)
  from marked_image_resolved [OF p d] obtain name url img padded where
    m: "f = File name url" "decode br url = Some img"
      "ow = naturalWidth img" "oh = naturalHeight img"
      "decode br (encode br (image_of_canvas (padImageToSquare_canvas img))) = Some padded"
      "imageWithHotspot = File name (encode br (image_of_canvas
         (drawHotspotOnImage_canvas padded (paddedHotspot ow oh spot))))"
    by blast
  have b: "b = empty_body\<lparr>op_type := Some ''edit'',
            originalImage := Some (encode br (image_of_canvas (drawHotspotOnImage_canvas padded
              (fst spot + pad_offset_x ow oh, snd spot + pad_offset_y ow oh)))),
            userPrompt := Some up,
            hotspot := Some (fst spot + pad_offset_x ow oh, snd spot + pad_offset_y ow oh)\<rparr>"
    using assms p d m(6)
    by (auto simp: generateEditedImage_request_def paddedHotspot_eq split: sum.splits
        dest: fileToBase64_resolved)
  from m(1-5) b show ?thesis by blast
qed

lemma generatePlacedImage_request_marked:
  assumes "generatePlacedImage_request br f object up spot = Inr (b, ow, oh)"
  shows "\<exists>name url img padded oname ourl. f = File name url \<and> decode br url = Some img
      \<and> ow = naturalWidth img \<and> oh = naturalHeight img
      \<and> decode br (encode br (image_of_canvas (padImageToSquare_canvas img))) = Some padded
      \<and> object = File oname ourl
      \<and> b = empty_body\<lparr>op_type := Some ''placement'',
            originalImage := Some (encode br (image_of_canvas (drawHotspotOnImage_canvas padded
              (fst spot + pad_offset_x ow oh, snd spot + pad_offset_y ow oh)))),
            objectImage := Some ourl,
            userPrompt := Some up,
            hotspot := Some (fst spot + pad_offset_x ow oh, snd spot + pad_offset_y ow oh)\<rparr>"
proof -
  from assms obtain paddedImage where
    p: "padImageToSquare br f = Inr (paddedImage, ow, oh)"
    by (auto simp: generatePlacedImage_request_def split: sum.splits prod.splits)
  with assms obtain imageWithHotspot where
    d: "drawHotspotOnImage br paddedImage (paddedHotspot ow oh spot) = Inr imageWithHotspot"
    by (auto simp: generatePlacedImage_request_def split: sum.splits)
  from marked_image_resolved [OF p d] obtain name url img padded where
    m: "f = File name url" "decode br url = Some img"
      "ow = naturalWidth img" "oh = naturalHeight img"
      "decode br (encode br (image_of_canvas (padImageToSquare_canvas img))) = Some padded"
      "imageWithHotspot = File name (encode br (image_of_canvas
         (drawHotspotOnImage_canvas padded (paddedHotspot ow oh spot))))"
    by blast
  obtain oname ourl where ob: "object = File oname ourl" by (cases object)
  have b: "b = empty_body\<lparr>op_type := Some ''placement'',
            originalImage := Some (encode br (image_of_canvas (drawHotspotOnImage_canvas padded
              (fst spot + pad_offset_x ow oh, snd spot + pad_offset_y ow oh)))),
            objectImage := Some ourl,
            userPrompt := Some up,
            hotspot := Some (fst spot + pad_offset_x ow oh, snd spot + pad_offset_y ow oh)\<rparr>"
    using assms p d m(6) ob
    by (auto simp: generatePlacedImage_request_def paddedHotspot_eq split: sum.splits
        dest: fileToBase64_resolved)
  from m(1-5) ob b show ?thesis by blast
qed

lemma marker_on_content:
  assumes "in_rect 0 0 (of_nat (naturalWidth img)) (of_nat (naturalHeight img)) hx hy"
  shows "in_rect (pad_offset_x (naturalWidth img) (naturalHeight img))
           (pad_offset_y (naturalWidth img) (naturalHeight img))
           (of_nat (naturalWidth img)) (of_nat (naturalHeight img))
           (hx + pad_offset_x (naturalWidth img) (naturalHeight img))
           (hy + pad_offset_y (naturalWidth img) (naturalHeight img))"
    and "render (padImageToSquare_canvas img)
           (hx + pad_offset_x (naturalWidth img) (naturalHeight img))
           (hy + pad_offset_y (naturalWidth img) (naturalHeight img)) = pixel img hx hy"
proof -
  show i: "in_rect (pad_offset_x (naturalWidth img) (naturalHeight img))
           (pad_offset_y (naturalWidth img) (naturalHeight img))
           (of_nat (naturalWidth img)) (of_nat (naturalHeight img))
           (hx + pad_offset_x (naturalWidth img) (naturalHeight img))
           (hy + pad_offset_y (naturalWidth img) (naturalHeight img))"
    using assms by (simp add: in_rect_def)
  show "render (padImageToSquare_canvas img)
           (hx + pad_offset_x (naturalWidth img) (naturalHeight img))
           (hy + pad_offset_y (naturalWidth img) (naturalHeight img)) = pixel img hx hy"
    using i by (simp add: render_padImageToSquare_canvas)
qed

lemma marker_ops:
  "ops (drawHotspotOnImage_canvas padded c)
     = [drawImage3 padded 0 0,
        FillCircle marker_fill (fst c) (snd c)
          (of_nat (min (naturalWidth padded) (naturalHeight padded)) * (15 / 1000)),
        StrokeCircle marker_stroke 2 (fst c) (snd c)
          (of_nat (min (naturalWidth padded) (naturalHeight padded)) * (15 / 1000))]"
  by (simp add: drawHotspotOnImage_canvas_def Let_def)

text \<open>
  Claim C6. In \<open>generateEditedImage\<close> and \<open>generatePlacedImage\<close>, where the browser's
  facilities work, the original decodes to an image of width \<open>w\<close> and height \<open>h\<close>, and
  the file exported from its padded canvas decodes to \<open>padded\<close>, the body sent has as
  its image the export of \<open>padded\<close> with the marker drawn on it at the user's hotspot
  moved by \<open>((S - w) / 2, (S - h) / 2)\<close>, \<open>S = max w h\<close>, and as its hotspot that same
  point; this body is what the function posts to the relay, and it crops the answer to
  \<open>w\<close> by \<open>h\<close>. Whenever the body of one of the two is built, it is of this form, for
  the image the original decodes to and the image its padded export decodes to. The marker is a filled and a stroked circle centred at the point, drawn
  over the image. For a hotspot inside the original image, the point lies in the content
  region of the padded square, where the padded canvas shows the original's colour at
  the hotspot.
\<close>

theorem C6_hotspot_marker:
  "(readOk br \<and> url \<noteq> [] \<and> decode br url = Some img \<and> contextOk br \<and> blobOk br
      \<and> 0 < square_side (naturalWidth img) (naturalHeight img)
      \<and> encode br (image_of_canvas (padImageToSquare_canvas img)) \<noteq> []
      \<and> decode br (encode br (image_of_canvas (padImageToSquare_canvas img))) = Some padded
      \<and> 0 < naturalWidth padded \<and> 0 < naturalHeight padded \<longrightarrow>
      generateEditedImage_request br (File name url) up spot
        = Inr (empty_body\<lparr>op_type := Some ''edit'',
                 originalImage := Some (encode br (image_of_canvas
                   (drawHotspotOnImage_canvas padded
                     (fst spot + pad_offset_x (naturalWidth img) (naturalHeight img),
                      snd spot + pad_offset_y (naturalWidth img) (naturalHeight img))))),
                 userPrompt := Some up,
                 hotspot := Some (fst spot + pad_offset_x (naturalWidth img) (naturalHeight img),
                                  snd spot + pad_offset_y (naturalWidth img) (naturalHeight img))\<rparr>,
               naturalWidth img, naturalHeight img)
      \<and> generateEditedImage br relay (File name url) up spot
        = (case api_generate relay
                  (empty_body\<lparr>op_type := Some ''edit'',
                 originalImage := Some (encode br (image_of_canvas
                   (drawHotspotOnImage_canvas padded
                     (fst spot + pad_offset_x (naturalWidth img) (naturalHeight img),
                      snd spot + pad_offset_y (naturalWidth img) (naturalHeight img))))),
                 userPrompt := Some up,
                 hotspot := Some (fst spot + pad_offset_x (naturalWidth img) (naturalHeight img),
                                  snd spot + pad_offset_y (naturalWidth img) (naturalHeight img))\<rparr>)
                  error_imagen of
             Inl e \<Rightarrow> Inl e
           | Inr squareImageUrl \<Rightarrow>
               cropSquareToOriginal64 br squareImageUrl (naturalWidth img) (naturalHeight img))
      \<and> generatePlacedImage_request br (File name url) (File oname ourl) up spot
        = Inr (empty_body\<lparr>op_type := Some ''placement'',
                 originalImage := Some (encode br (image_of_canvas
                   (drawHotspotOnImage_canvas padded
                     (fst spot + pad_offset_x (naturalWidth img) (naturalHeight img),
                      snd spot + pad_offset_y (naturalWidth img) (naturalHeight img))))),
                 objectImage := Some ourl,
                 userPrompt := Some up,
                 hotspot := Some (fst spot + pad_offset_x (naturalWidth img) (naturalHeight img),
                                  snd spot + pad_offset_y (naturalWidth img) (naturalHeight img))\<rparr>,
               naturalWidth img, naturalHeight img)
      \<and> generatePlacedImage br relay (File name url) (File oname ourl) up spot
        = (case api_generate relay
                  (empty_body\<lparr>op_type := Some ''placement'',
                 originalImage := Some (encode br (image_of_canvas
                   (drawHotspotOnImage_canvas padded
                     (fst spot + pad_offset_x (naturalWidth img) (naturalHeight img),
                      snd spot + pad_offset_y (naturalWidth img) (naturalHeight img))))),
                 objectImage := Some ourl,
                 userPrompt := Some up,
                 hotspot := Some (fst spot + pad_offset_x (naturalWidth img) (naturalHeight img),
                                  snd spot + pad_offset_y (naturalWidth img) (naturalHeight img))\<rparr>)
                  error_objeto of
             Inl e \<Rightarrow> Inl e
           | Inr squareImageUrl \<Rightarrow>
               cropSquareToOriginal64 br squareImageUrl (naturalWidth img) (naturalHeight img)))
   \<and> (\<forall>b ow oh. generateEditedImage_request br f up spot = Inr (b, ow, oh) \<longrightarrow>
        (\<exists>name' url' img' padded'. f = File name' url' \<and> decode br url' = Some img'
           \<and> ow = naturalWidth img' \<and> oh = naturalHeight img'
           \<and> decode br (encode br (image_of_canvas (padImageToSquare_canvas img'))) = Some padded'
           \<and> b = empty_body\<lparr>op_type := Some ''edit'',
                 originalImage := Some (encode br (image_of_canvas
                   (drawHotspotOnImage_canvas padded'
                     (fst spot + pad_offset_x ow oh, snd spot + pad_offset_y ow oh)))),
                 userPrompt := Some up,
                 hotspot := Some (fst spot + pad_offset_x ow oh,
                                  snd spot + pad_offset_y ow oh)\<rparr>))
   \<and> (\<forall>b ow oh. generatePlacedImage_request br f object up spot = Inr (b, ow, oh) \<longrightarrow>
        (\<exists>name' url' img' padded' oname' ourl'. f = File name' url' \<and> decode br url' = Some img'
           \<and> ow = naturalWidth img' \<and> oh = naturalHeight img'
           \<and> decode br (encode br (image_of_canvas (padImageToSquare_canvas img'))) = Some padded'
           \<and> object = File oname' ourl'
           \<and> b = empty_body\<lparr>op_type := Some ''placement'',
                 originalImage := Some (encode br (image_of_canvas
                   (drawHotspotOnImage_canvas padded'
                     (fst spot + pad_offset_x ow oh, snd spot + pad_offset_y ow oh)))),
                 objectImage := Some ourl',
                 userPrompt := Some up,
                 hotspot := Some (fst spot + pad_offset_x ow oh,
                                  snd spot + pad_offset_y ow oh)\<rparr>))
   \<and> ops (drawHotspotOnImage_canvas padded c)
       = [drawImage3 padded 0 0,
          FillCircle marker_fill (fst c) (snd c)
            (of_nat (min (naturalWidth padded) (naturalHeight padded)) * (15 / 1000)),
          StrokeCircle marker_stroke 2 (fst c) (snd c)
            (of_nat (min (naturalWidth padded) (naturalHeight padded)) * (15 / 1000))]
   \<and> (in_rect 0 0 (of_nat (naturalWidth img)) (of_nat (naturalHeight img)) hx hy \<longrightarrow>
        in_rect (pad_offset_x (naturalWidth img) (naturalHeight img))
          (pad_offset_y (naturalWidth img) (naturalHeight img))
          (of_nat (naturalWidth img)) (of_nat (naturalHeight img))
          (hx + pad_offset_x (naturalWidth img) (naturalHeight img))
          (hy + pad_offset_y (naturalWidth img) (naturalHeight img))
        \<and> render (padImageToSquare_canvas img)
            (hx + pad_offset_x (naturalWidth img) (naturalHeight img))
            (hy + pad_offset_y (naturalWidth img) (naturalHeight img)) = pixel img hx hy)"
proof (intro conjI)
  show "readOk br \<and> url \<noteq> [] \<and> decode br url = Some img \<and> contextOk br \<and> blobOk br
      \<and> 0 < square_side (naturalWidth img) (naturalHeight img)
      \<and> encode br (image_of_canvas (padImageToSquare_canvas img)) \<noteq> []
      \<and> decode br (encode br (image_of_canvas (padImageToSquare_canvas img))) = Some padded
      \<and> 0 < naturalWidth padded \<and> 0 < naturalHeight padded \<longrightarrow>
      generateEditedImage_request br (File name url) up spot
        = Inr (empty_body\<lparr>op_type := Some ''edit'',
                 originalImage := Some (encode br (image_of_canvas
                   (drawHotspotOnImage_canvas padded
                     (fst spot + pad_offset_x (naturalWidth img) (naturalHeight img),
                      snd spot + pad_offset_y (naturalWidth img) (naturalHeight img))))),
                 userPrompt := Some up,
                 hotspot := Some (fst spot + pad_offset_x (naturalWidth img) (naturalHeight img),
                                  snd spot + pad_offset_y (naturalWidth img) (naturalHeight img))\<rparr>,
               naturalWidth img, naturalHeight img)
      \<and> generateEditedImage br relay (File name url) up spot
        = (case api_generate relay
                  (empty_body\<lparr>op_type := Some ''edit'',
                 originalImage := Some (encode br (image_of_canvas
                   (drawHotspotOnImage_canvas padded
                     (fst spot + pad_offset_x (naturalWidth img) (naturalHeight img),
                      snd spot + pad_offset_y (naturalWidth img) (naturalHeight img))))),
                 userPrompt := Some up,
                 hotspot := Some (fst spot + pad_offset_x (naturalWidth img) (naturalHeight img),
                                  snd spot + pad_offset_y (naturalWidth img) (naturalHeight img))\<rparr>)
                  error_imagen of
             Inl e \<Rightarrow> Inl e
           | Inr squareImageUrl \<Rightarrow>
               cropSquareToOriginal64 br squareImageUrl (naturalWidth img) (naturalHeight img))
      \<and> generatePlacedImage_request br (File name url) (File oname ourl) up spot
        = Inr (empty_body\<lparr>op_type := Some ''placement'',
                 originalImage := Some (encode br (image_of_canvas
                   (drawHotspotOnImage_canvas padded
                     (fst spot + pad_offset_x (naturalWidth img) (naturalHeight img),
                      snd spot + pad_offset_y (naturalWidth img) (naturalHeight img))))),
                 objectImage := Some ourl,
                 userPrompt := Some up,
                 hotspot := Some (fst spot + pad_offset_x (naturalWidth img) (naturalHeight img),
                                  snd spot + pad_offset_y (naturalWidth img) (naturalHeight img))\<rparr>,
               naturalWidth img, naturalHeight img)
      \<and> generatePlacedImage br relay (File name url) (File oname ourl) up spot
        = (case api_generate relay
                  (empty_body\<lparr>op_type := Some ''placement'',
                 originalImage := Some (encode br (image_of_canvas
                   (drawHotspotOnImage_canvas padded
                     (fst spot + pad_offset_x (naturalWidth img) (naturalHeight img),
                      snd spot + pad_offset_y (naturalWidth img) (naturalHeight img))))),
                 objectImage := Some ourl,
                 userPrompt := Some up,
                 hotspot := Some (fst spot + pad_offset_x (naturalWidth img) (naturalHeight img),
                                  snd spot + pad_offset_y (naturalWidth img) (naturalHeight img))\<rparr>)
                  error_objeto of
             Inl e \<Rightarrow> Inl e
           | Inr squareImageUrl \<Rightarrow>
               cropSquareToOriginal64 br squareImageUrl (naturalWidth img) (naturalHeight img))"
  proof (intro impI, elim conjE)
    assume a: "readOk br" "url \<noteq> []" "decode br url = Some img" "contextOk br" "blobOk br"
      "0 < square_side (naturalWidth img) (naturalHeight img)"
      "encode br (image_of_canvas (padImageToSquare_canvas img)) \<noteq> []"
      "decode br (encode br (image_of_canvas (padImageToSquare_canvas img))) = Some padded"
      "0 < naturalWidth padded" "0 < naturalHeight padded"
    show "generateEditedImage_request br (File name url) up spot
        = Inr (empty_body\<lparr>op_type := Some ''edit'',
                 originalImage := Some (encode br (image_of_canvas
                   (drawHotspotOnImage_canvas padded
                     (fst spot + pad_offset_x (naturalWidth img) (naturalHeight img),
                      snd spot + pad_offset_y (naturalWidth img) (naturalHeight img))))),
                 userPrompt := Some up,
                 hotspot := Some (fst spot + pad_offset_x (naturalWidth img) (naturalHeight img),
                                  snd spot + pad_offset_y (naturalWidth img) (naturalHeight img))\<rparr>,
               naturalWidth img, naturalHeight img)
      \<and> generateEditedImage br relay (File name url) up spot
        = (case api_generate relay
                  (empty_body\<lparr>op_type := Some ''edit'',
                 originalImage := Some (encode br (image_of_canvas
                   (drawHotspotOnImage_canvas padded
                     (fst spot + pad_offset_x (naturalWidth img) (naturalHeight img),
                      snd spot + pad_offset_y (naturalWidth img) (naturalHeight img))))),
                 userPrompt := Some up,
                 hotspot := Some (fst spot + pad_offset_x (naturalWidth img) (naturalHeight img),
                                  snd spot + pad_offset_y (naturalWidth img) (naturalHeight img))\<rparr>)
                  error_imagen of
             Inl e \<Rightarrow> Inl e
           | Inr squareImageUrl \<Rightarrow>
               cropSquareToOriginal64 br squareImageUrl (naturalWidth img) (naturalHeight img))
      \<and> generatePlacedImage_request br (File name url) (File oname ourl) up spot
        = Inr (empty_body\<lparr>op_type := Some ''placement'',
                 originalImage := Some (encode br (image_of_canvas
                   (drawHotspotOnImage_canvas padded
                     (fst spot + pad_offset_x (naturalWidth img) (naturalHeight img),
                      snd spot + pad_offset_y (naturalWidth img) (naturalHeight img))))),
                 objectImage := Some ourl,
                 userPrompt := Some up,
                 hotspot := Some (fst spot + pad_offset_x (naturalWidth img) (naturalHeight img),
                                  snd spot + pad_offset_y (naturalWidth img) (naturalHeight img))\<rparr>,
               naturalWidth img, naturalHeight img)
      \<and> generatePlacedImage br relay (File name url) (File oname ourl) up spot
        = (case api_generate relay
                  (empty_body\<lparr>op_type := Some ''placement'',
                 originalImage := Some (encode br (image_of_canvas
                   (drawHotspotOnImage_canvas padded
                     (fst spot + pad_offset_x (naturalWidth img) (naturalHeight img),
                      snd spot + pad_offset_y (naturalWidth img) (naturalHeight img))))),
                 objectImage := Some ourl,
                 userPrompt := Some up,
                 hotspot := Some (fst spot + pad_offset_x (naturalWidth img) (naturalHeight img),
                                  snd spot + pad_offset_y (naturalWidth img) (naturalHeight img))\<rparr>)
                  error_objeto of
             Inl e \<Rightarrow> Inl e
           | Inr squareImageUrl \<Rightarrow>
               cropSquareToOriginal64 br squareImageUrl (naturalWidth img) (naturalHeight img))"
      using marked_request_resolves [OF a]
      by (simp add: generateEditedImage_def generatePlacedImage_def post_and_crop_def)
  qed
  show "\<forall>b ow oh. generateEditedImage_request br f up spot = Inr (b, ow, oh) \<longrightarrow>
        (\<exists>name' url' img' padded'. f = File name' url' \<and> decode br url' = Some img'
           \<and> ow = naturalWidth img' \<and> oh = naturalHeight img'
           \<and> decode br (encode br (image_of_canvas (padImageToSquare_canvas img'))) = Some padded'
           \<and> b = empty_body\<lparr>op_type := Some ''edit'',
                 originalImage := Some (encode br (image_of_canvas
                   (drawHotspotOnImage_canvas padded'
                     (fst spot + pad_offset_x ow oh, snd spot + pad_offset_y ow oh)))),
                 userPrompt := Some up,
                 hotspot := Some (fst spot + pad_offset_x ow oh,
                                  snd spot + pad_offset_y ow oh)\<rparr>)"
    by (intro allI impI) (rule generateEditedImage_request_marked)
  show "\<forall>b ow oh. generatePlacedImage_request br f object up spot = Inr (b, ow, oh) \<longrightarrow>
        (\<exists>name' url' img' padded' oname' ourl'. f = File name' url' \<and> decode br url' = Some img'
           \<and> ow = naturalWidth img' \<and> oh = naturalHeight img'
           \<and> decode br (encode br (image_of_canvas (padImageToSquare_canvas img'))) = Some padded'
           \<and> object = File oname' ourl'
           \<and> b = empty_body\<lparr>op_type := Some ''placement'',
                 originalImage := Some (encode br (image_of_canvas
                   (drawHotspotOnImage_canvas padded'
                     (fst spot + pad_offset_x ow oh, snd spot + pad_offset_y ow oh)))),
                 objectImage := Some ourl',
                 userPrompt := Some up,
                 hotspot := Some (fst spot + pad_offset_x ow oh,
                                  snd spot + pad_offset_y ow oh)\<rparr>)"
    by (intro allI impI) (rule generatePlacedImage_request_marked)
  show "ops (drawHotspotOnImage_canvas padded c)
       = [drawImage3 padded 0 0,
          FillCircle marker_fill (fst c) (snd c)
            (of_nat (min (naturalWidth padded) (naturalHeight padded)) * (15 / 1000)),
          StrokeCircle marker_stroke 2 (fst c) (snd c)
            (of_nat (min (naturalWidth padded) (naturalHeight padded)) * (15 / 1000))]"
    by (rule marker_ops)
  show "in_rect 0 0 (of_nat (naturalWidth img)) (of_nat (naturalHeight img)) hx hy \<longrightarrow>
        in_rect (pad_offset_x (naturalWidth img) (naturalHeight img))
          (pad_offset_y (naturalWidth img) (naturalHeight img))
          (of_nat (naturalWidth img)) (of_nat (naturalHeight img))
          (hx + pad_offset_x (naturalWidth img) (naturalHeight img))
          (hy + pad_offset_y (naturalWidth img) (naturalHeight img))
        \<and> render (padImageToSquare_canvas img)
            (hx + pad_offset_x (naturalWidth img) (naturalHeight img))
            (hy + pad_offset_y (naturalWidth img) (naturalHeight img)) = pixel img hx hy"
    using marker_on_content [of img hx hy] by (intro impI conjI)
qed

text \<open>
  Claim C6 at the sample image and the hotspot (1, 1), for an edit and for a placement:
  the body sent has the hotspot (1, 2) and the padded sample image marked at (1, 2),
  where the padded image shows the original's colour at (1, 1); posted to a relay
  without a key, both functions throw the relay's error.
\<close>

theorem C6_hotspot_marker_witness:
  "generateEditedImage_request sample_browser (File ''p.png'' ''photo'') ''brighter'' (1, 1)
     = Inr (empty_body\<lparr>op_type := Some ''edit'',
              originalImage := Some (encode sample_browser (image_of_canvas
                (drawHotspotOnImage_canvas
                   (image_of_canvas (padImageToSquare_canvas sample_image)) (1, 2)))),
              userPrompt := Some ''brighter'', hotspot := Some (1, 2)\<rparr>, 4, 2)
   \<and> generatePlacedImage_request sample_browser (File ''p.png'' ''photo'')
        (File ''lamp.png'' ''lamp'') ''on the table'' (1, 1)
     = Inr (empty_body\<lparr>op_type := Some ''placement'',
              originalImage := Some (encode sample_browser (image_of_canvas
                (drawHotspotOnImage_canvas
                   (image_of_canvas (padImageToSquare_canvas sample_image)) (1, 2)))),
              objectImage := Some ''lamp'',
              userPrompt := Some ''on the table'', hotspot := Some (1, 2)\<rparr>, 4, 2)
   \<and> generateEditedImage sample_browser (\<lambda>r. fst (handler service_down Map.empty r))
        (File ''p.png'' ''photo'') ''brighter'' (1, 1)
     = Inl (Thrown ''API Key de Gemini no configurada'')
   \<and> generatePlacedImage sample_browser (\<lambda>r. fst (handler service_down Map.empty r))
        (File ''p.png'' ''photo'') (File ''lamp.png'' ''lamp'') ''on the table'' (1, 1)
     = Inl (Thrown ''API Key de Gemini no configurada'')
   \<and> (\<exists>img. decode sample_browser ''photo'' = Some img
         \<and> naturalWidth img = 4 \<and> naturalHeight img = 2)
   \<and> (\<exists>oname. File ''lamp.png'' ''lamp'' = File oname ''lamp'')
   \<and> ops (drawHotspotOnImage_canvas
        (image_of_canvas (padImageToSquare_canvas sample_image)) (1, 2))
       = [drawImage3 (image_of_canvas (padImageToSquare_canvas sample_image)) 0 0,
          FillCircle marker_fill 1 2 (3 / 50), StrokeCircle marker_stroke 2 1 2 (3 / 50)]
   \<and> render (padImageToSquare_canvas sample_image) 1 2 = ''red''"
proof -
  let ?P = "image_of_canvas (padImageToSquare_canvas sample_image)"
  let ?relay = "\<lambda>r. fst (handler service_down Map.empty r)"
  note c6 = C6_hotspot_marker [where br = sample_browser and url = "''photo''"
      and img = sample_image and padded = ?P and name = "''p.png''" and up = "''brighter''"
      and spot = "(1, 1)" and relay = ?relay and oname = "''lamp.png''" and ourl = "''lamp''"
      and f = "File ''p.png'' ''photo''" and object = "File ''lamp.png'' ''lamp''"
      and c = "(1, 2)" and hx = 1 and hy = 1]
  note c6p = C6_hotspot_marker [where br = sample_browser and url = "''photo''"
      and img = sample_image and padded = ?P and name = "''p.png''" and up = "''on the table''"
      and spot = "(1, 1)" and relay = ?relay and oname = "''lamp.png''" and ourl = "''lamp''"
      and f = "File ''p.png'' ''photo''" and object = "File ''lamp.png'' ''lamp''"
      and c = "(1, 2)" and hx = 1 and hy = 1]
  note resolves = c6 [THEN conjunct1, rule_format]
  note resolves_placed = c6p [THEN conjunct1, rule_format]
  note edited = c6 [THEN conjunct2, THEN conjunct1, rule_format]
  note placed = c6p [THEN conjunct2, THEN conjunct2, THEN conjunct1, rule_format]
  note marker = c6 [THEN conjunct2, THEN conjunct2, THEN conjunct2, THEN conjunct1]
  note content = c6 [THEN conjunct2, THEN conjunct2, THEN conjunct2, THEN conjunct2,
      rule_format]
  have sq: "naturalWidth ?P = 4" "naturalHeight ?P = 4"
    by (simp_all add: image_of_canvas_def padImageToSquare_canvas_def Let_def sample_image_def)
  have enc: "encode sample_browser ?P = ''padded''"
    by (simp add: sample_browser_def sq)
  have hyp: "readOk sample_browser \<and> ''photo'' \<noteq> []
      \<and> decode sample_browser ''photo'' = Some sample_image
      \<and> contextOk sample_browser \<and> blobOk sample_browser
      \<and> 0 < square_side (naturalWidth sample_image) (naturalHeight sample_image)
      \<and> encode sample_browser ?P \<noteq> []
      \<and> decode sample_browser (encode sample_browser ?P) = Some ?P
      \<and> 0 < naturalWidth ?P \<and> 0 < naturalHeight ?P"
    unfolding enc by (simp add: sample_browser_def sample_geometry sq)
  have no_key: "api_generate ?relay b fallback = Inl (Thrown ''API Key de Gemini no configurada'')"
    for b fallback
    by (simp add: api_generate_def handler_def truthy_def respond_def or_else_def)
  have e: "generateEditedImage_request sample_browser (File ''p.png'' ''photo'') ''brighter'' (1, 1)
     = Inr (empty_body\<lparr>op_type := Some ''edit'',
              originalImage := Some (encode sample_browser (image_of_canvas
                (drawHotspotOnImage_canvas ?P (1, 2)))),
              userPrompt := Some ''brighter'', hotspot := Some (1, 2)\<rparr>, 4, 2)"
    using resolves [OF hyp, THEN conjunct1] by (simp add: sample_geometry)
  have ef: "generateEditedImage sample_browser ?relay (File ''p.png'' ''photo'') ''brighter'' (1, 1)
     = Inl (Thrown ''API Key de Gemini no configurada'')"
    using resolves [OF hyp, THEN conjunct2, THEN conjunct1] by (simp add: no_key)
  have p: "generatePlacedImage_request sample_browser (File ''p.png'' ''photo'')
        (File ''lamp.png'' ''lamp'') ''on the table'' (1, 1)
     = Inr (empty_body\<lparr>op_type := Some ''placement'',
              originalImage := Some (encode sample_browser (image_of_canvas
                (drawHotspotOnImage_canvas ?P (1, 2)))),
              objectImage := Some ''lamp'',
              userPrompt := Some ''on the table'', hotspot := Some (1, 2)\<rparr>, 4, 2)"
    using resolves_placed [OF hyp, THEN conjunct2, THEN conjunct2, THEN conjunct1]
    by (simp add: sample_geometry)
  have pf: "generatePlacedImage sample_browser ?relay (File ''p.png'' ''photo'')
        (File ''lamp.png'' ''lamp'') ''on the table'' (1, 1)
     = Inl (Thrown ''API Key de Gemini no configurada'')"
    using resolves_placed [OF hyp, THEN conjunct2, THEN conjunct2, THEN conjunct2]
    by (simp add: no_key)
  have d: "\<exists>img. decode sample_browser ''photo'' = Some img
         \<and> naturalWidth img = 4 \<and> naturalHeight img = 2"
    using edited [OF e] by auto
  have ob: "\<exists>oname. File ''lamp.png'' ''lamp'' = File oname ''lamp''"
    using placed [OF p] by auto
  have m: "ops (drawHotspotOnImage_canvas ?P (1, 2))
       = [drawImage3 ?P 0 0,
          FillCircle marker_fill 1 2 (3 / 50), StrokeCircle marker_stroke 2 1 2 (3 / 50)]"
    using marker by (simp add: sq)
  have i: "in_rect 0 0 (of_nat (naturalWidth sample_image)) (of_nat (naturalHeight sample_image)) 1 1"
    by (simp add: in_rect_def sample_geometry)
  have on: "render (padImageToSquare_canvas sample_image) 1 2 = ''red''"
    using content [OF i] by (simp add: sample_geometry) (simp add: sample_image_def)
  show ?thesis
    using e p ef pf d ob m on by (intro conjI)
qed

end
